theory Spec2Isabelle
  imports Main "HOL-Library.Sublist"
begin

section \<open>Notebook alerts: the dispatcher, the error hook and the notifier entry point\<close>

text \<open>
  The development embeds the two Python modules \<^verbatim>\<open>notebook_auto_alert.py\<close> and
  \<^verbatim>\<open>_show_alert.py\<close>. Python identifiers that start with an underscore lose it
  (\<^verbatim>\<open>_show_alert\<close> is \<open>show_alert\<close>), since an Isabelle name starts with a letter.
\<close>

subsection \<open>Strings\<close>

text \<open>
  A Python \<^verbatim>\<open>str\<close> is a sequence of code points, and slicing counts code points. The
  model keeps that: a string is the list of its code points. \<open>ascii\<close> turns an ASCII
  literal into such a list; the three symbols the module prints that are not ASCII are
  given by their code points.
\<close>

type_synonym pystr = "nat list"

definition ascii :: "string \<Rightarrow> pystr" where
  "ascii cs = map of_char cs"

definition warning_sign :: pystr where
  "warning_sign = [9888]"

definition check_mark :: pystr where
  "check_mark = [10003]"

definition ballot_x :: pystr where
  "ballot_x = [10007]"

text \<open>\<^verbatim>\<open>s.endswith(suffix)\<close>.\<close>

definition endswith :: "pystr \<Rightarrow> pystr \<Rightarrow> bool" where
  "endswith s suf \<longleftrightarrow>
     length suf \<le> length s \<and> drop (length s - length suf) s = suf"

subsection \<open>The notifier's command line (\<^verbatim>\<open>_show_alert.py\<close>)\<close>

text \<open>
  \<^verbatim>\<open>show_alert_window\<close> chooses the window's colours, title and sound from the success
  flag alone (lines 23 to 30 and 79 of the source).
\<close>

record alert_style =
  bg_color :: pystr
  title_text :: pystr
  sound :: pystr
  btn_bg :: pystr

definition window_style :: "bool \<Rightarrow> alert_style" where
  "window_style success =
     (if success
      then \<lparr>bg_color = ascii ''#90EE90'',
            title_text = check_mark @ ascii '' NOTEBOOK COMPLETE '' @ check_mark,
            sound = ascii ''Glass'',
            btn_bg = ascii ''#2C3E50''\<rparr>
      else \<lparr>bg_color = ascii ''#FFB6C1'',
            title_text = ballot_x @ ascii '' NOTEBOOK ERROR '' @ ballot_x,
            sound = ascii ''Basso'',
            btn_bg = ascii ''#8B0000''\<rparr>)"

text \<open>
  The script's \<^verbatim>\<open>__main__\<close> block either prints the usage line and exits with a
  status, or calls \<^verbatim>\<open>show_alert_window(success, message, notebook_name)\<close>.
\<close>

datatype notifier_outcome =
  Usage_exit pystr int
| Alert_window bool pystr pystr

definition usage_line :: pystr where
  "usage_line = ascii ''Usage: python _show_alert.py <success|error> [message] [notebook_name]''"

definition notifier_main :: "pystr list \<Rightarrow> notifier_outcome" where
  "notifier_main argv =
     (if length argv < 2 then Usage_exit usage_line 1
      else
        let alert_type = argv ! 1;
            message = (if length argv > 2 then argv ! 2 else []);
            notebook_name = (if length argv > 3 then argv ! 3 else []);
            success = (alert_type = ascii ''success'')
        in Alert_window success message notebook_name)"

subsection \<open>Exceptions and the world outside the module\<close>

text \<open>
  A raised exception is a value. The library calls the module makes raise instances of
  subclasses of \<^verbatim>\<open>Exception\<close> (\<^verbatim>\<open>ImportError\<close>, \<^verbatim>\<open>OSError\<close>, \<^verbatim>\<open>TypeError\<close>,
  \<^verbatim>\<open>ValueError\<close>, \<^verbatim>\<open>RuntimeError\<close>, \<^verbatim>\<open>UnicodeEncodeError\<close>), which \<^verbatim>\<open>except Exception\<close>
  and a bare \<^verbatim>\<open>except\<close> both catch; the model keeps the text \<^verbatim>\<open>str(e)\<close> of the
  exception. A call that reads the world and can raise returns \<open>pyexn + 'a\<close>, with
  \<open>Inl\<close> for the exception.
\<close>

datatype pyexn = PyException pystr

text \<open>
  What \<^verbatim>\<open>ip.user_ns\<close> holds under the key \<^verbatim>\<open>__vsc_ipynb_file__\<close>: reading the namespace
  raises, the key is absent, the value is a string, or the value is an object that
  \<^verbatim>\<open>Path(...)\<close> rejects with an exception.
\<close>

datatype vsc_probe =
  User_ns_raises pyexn
| Var_absent
| Var_str pystr
| Var_not_pathlike pyexn

text \<open>
  What \<^verbatim>\<open>psutil\<close> gives for the parent process: the import or one of the calls raises,
  there is no parent, or the parent's command line.
\<close>

datatype parent_probe =
  Psutil_raises pyexn
| No_parent
| Parent_cmdline "pystr list"

text \<open>
  The two components of \<^verbatim>\<open>sys.exc_info()\<close> that the wrapper reads. Line 198 tests them
  for truth, not for \<^verbatim>\<open>None\<close>: a class or an instance can define \<^verbatim>\<open>__bool__\<close> or
  \<^verbatim>\<open>__len__\<close>, so each carries what \<^verbatim>\<open>bool()\<close> does on it (it raises, or gives a truth
  value). The class carries its \<^verbatim>\<open>__name__\<close> and the instance what \<^verbatim>\<open>str()\<close> does on
  it.
\<close>

datatype pyclass = PyClass (class_truth: "pyexn + bool") (class_name: pystr)

datatype pyinstance = PyInstance (instance_truth: "pyexn + bool") (instance_str: "pyexn + pystr")

text \<open>
  The arguments \<^verbatim>\<open>*args, **kwargs\<close> of a call of the traceback routine: the positional
  values and the keyword pairs, each value by its \<^verbatim>\<open>repr\<close>.
\<close>

type_synonym call_args = "pystr list \<times> (pystr \<times> pystr) list"

text \<open>
  The world a call runs in. Every call of the library that the source makes is a field,
  with its exception when it can raise.
  \<^item> \<open>script_dir\<close> is \<^verbatim>\<open>Path(__file__).parent\<close>; \<open>cwd\<close> is \<^verbatim>\<open>Path.cwd()\<close>, which raises
    when the working directory is gone; \<open>home\<close> is \<^verbatim>\<open>Path.home()\<close>, which raises when
    the home directory cannot be resolved.
  \<^item> \<open>path_join d n\<close> is \<^verbatim>\<open>str(Path(d) / n)\<close> and \<open>path_stem p\<close> is \<^verbatim>\<open>Path(p).stem\<close>;
    both depend on the platform. \<open>path_exists p\<close> is \<^verbatim>\<open>Path(p).exists()\<close>, which
    raises on an error of the file system that it does not read as absence.
  \<^item> \<open>popen argv\<close> is \<open>None\<close> when \<^verbatim>\<open>subprocess.Popen\<close> starts the process and
    \<open>Some e\<close> when it raises \<open>e\<close>.
  \<^item> \<open>stdout_write line\<close> is \<open>None\<close> when \<^verbatim>\<open>print(line)\<close> succeeds and \<open>Some e\<close> when
    it raises \<open>e\<close>: the stream is closed, or its encoding has no code for a character
    of the line.
  \<^item> \<open>host_showtraceback k args\<close> is what the routine number \<open>k\<close> of the host shell
    does when called with \<open>args\<close>: \<open>None\<close> when it returns, \<open>Some e\<close> when it raises.
  \<^item> \<open>exc_info\<close> is the pair of the first two components of \<^verbatim>\<open>sys.exc_info()\<close>.
\<close>

record world =
  script_dir :: pystr
  cwd :: "pyexn + pystr"
  home :: "pyexn + pystr"
  path_join :: "pystr \<Rightarrow> pystr \<Rightarrow> pystr"
  path_exists :: "pystr \<Rightarrow> pyexn + bool"
  path_stem :: "pystr \<Rightarrow> pystr"
  sys_executable :: pystr
  popen :: "pystr list \<Rightarrow> pyexn option"
  stdout_write :: "pystr \<Rightarrow> pyexn option"
  host_showtraceback :: "nat \<Rightarrow> call_args \<Rightarrow> pyexn option"
  vsc_var :: vsc_probe
  parent_cmdline :: parent_probe
  exc_info :: "pyclass option \<times> pyinstance option"

subsection \<open>The session\<close>

text \<open>
  The value of \<^verbatim>\<open>ip.showtraceback\<close>. The module stores a closure there that holds the
  routine it replaced; a session that stored functions of sessions would not be a type,
  so a routine is data: a routine of the host shell, with a number that tells one from
  another, or the module's wrapper around the routine it captured.
\<close>

datatype routine =
  Builtin nat
| Custom routine

text \<open>
  What \<^verbatim>\<open>from IPython import get_ipython; ip = get_ipython()\<close> does: the import raises,
  the call returns \<^verbatim>\<open>None\<close>, or there is a shell, given by its traceback routine.
\<close>

datatype shell_ctx =
  Import_fails pyexn
| No_shell
| Shell routine

text \<open>
  Everything a call does to the outside is an event, in order: a printed line, a
  process started with its argument vector, a call of a host traceback routine. A call
  of the dispatcher \<^verbatim>\<open>_show_alert\<close> is logged as well, with its three arguments, so
  that calls can be counted.
\<close>

datatype event =
  Call_show_alert bool pystr "pystr option"
| Print pystr
| Popen "pystr list"
| Show_traceback nat call_args

record session =
  error_handler_installed :: bool
  error_occurred :: bool
  shell :: shell_ctx
  events :: "event list"

text \<open>
  A call that changes the session either returns or raises, and in both cases it leaves
  a session: what it did before it raised stays done.
\<close>

datatype outcome =
  Returned session
| Raised pyexn session

fun state_of :: "outcome \<Rightarrow> session" where
  "state_of (Returned s) = s"
| "state_of (Raised e s) = s"

text \<open>Sequencing: the second statement runs when the first has returned.\<close>

fun and_then :: "outcome \<Rightarrow> (session \<Rightarrow> outcome) \<Rightarrow> outcome" where
  "and_then (Returned s) f = f s"
| "and_then (Raised e s) f = Raised e s"


definition emit :: "event \<Rightarrow> session \<Rightarrow> session" where
  "emit e s = s\<lparr>events := events s @ [e]\<rparr>"

text \<open>\<^verbatim>\<open>print(line)\<close>, and a run of \<^verbatim>\<open>print\<close> statements one after the other.\<close>

definition print_line :: "world \<Rightarrow> pystr \<Rightarrow> session \<Rightarrow> outcome" where
  "print_line w line s =
     (case stdout_write w line of
        None \<Rightarrow> Returned (emit (Print line) s)
      | Some e \<Rightarrow> Raised e s)"

fun print_lines :: "world \<Rightarrow> pystr list \<Rightarrow> session \<Rightarrow> outcome" where
  "print_lines w [] s = Returned s"
| "print_lines w (line # rest) s = and_then (print_line w line s) (print_lines w rest)"

definition get_ipython :: "session \<Rightarrow> pyexn + routine option" where
  "get_ipython s =
     (case shell s of
        Import_fails e \<Rightarrow> Inl e
      | No_shell \<Rightarrow> Inr None
      | Shell r \<Rightarrow> Inr (Some r))"

subsection \<open>Label resolution (\<^verbatim>\<open>_get_notebook_name\<close>)\<close>

text \<open>
  A \<^verbatim>\<open>try\<close> block of the function is a value \<open>pyexn + pystr option\<close>: it raised, it ran
  to its end (\<open>Inr None\<close>), or it executed \<^verbatim>\<open>return name\<close> (\<open>Inr (Some name)\<close>).
  \<open>except_pass\<close> is the handler \<^verbatim>\<open>except: pass\<close>. The first two blocks of the source
  (the connection file and the history file) bind locals that nothing reads, return
  nothing and swallow every exception, so they leave no trace here.
\<close>

definition except_pass :: "pyexn + 'a option \<Rightarrow> 'a option" where
  "except_pass block = (case block of Inl e \<Rightarrow> None | Inr r \<Rightarrow> r)"

definition vsc_strategy :: "world \<Rightarrow> pyexn + pystr option" where
  "vsc_strategy w =
     (case vsc_var w of
        User_ns_raises e \<Rightarrow> Inl e
      | Var_absent \<Rightarrow> Inr None
      | Var_str nb_path \<Rightarrow> Inr (Some (path_stem w nb_path))
      | Var_not_pathlike e \<Rightarrow> Inl e)"

fun first_ipynb_arg :: "world \<Rightarrow> pystr list \<Rightarrow> pystr option" where
  "first_ipynb_arg w [] = None"
| "first_ipynb_arg w (arg # cmdline) =
     (if endswith arg (ascii ''.ipynb'') then Some (path_stem w arg)
      else first_ipynb_arg w cmdline)"

definition parent_strategy :: "world \<Rightarrow> pyexn + pystr option" where
  "parent_strategy w =
     (case parent_cmdline w of
        Psutil_raises e \<Rightarrow> Inl e
      | No_parent \<Rightarrow> Inr None
      | Parent_cmdline cmdline \<Rightarrow> Inr (first_ipynb_arg w cmdline))"

definition get_notebook_name :: "world \<Rightarrow> session \<Rightarrow> pyexn + pystr option" where
  "get_notebook_name w s =
     (case
        (case get_ipython s of
           Inl e \<Rightarrow> Inl e
         | Inr None \<Rightarrow> Inr None
         | Inr (Some ip) \<Rightarrow>
             (case except_pass (vsc_strategy w) of
                Some name \<Rightarrow> Inr (Some name)
              | None \<Rightarrow>
                  (case except_pass (parent_strategy w) of
                     Some name \<Rightarrow> Inr (Some name)
                   | None \<Rightarrow> Inr None)))
      of
        Inl e \<Rightarrow> Inr None
      | Inr r \<Rightarrow> Inr r)"

text \<open>
  The label resolution as the specification words it: an ordered list of strategies,
  each giving a label or nothing, a missing interpreter being one way for a strategy to
  fail; the result is that of the first strategy that gives a label.
\<close>

definition spec_vsc_label :: "world \<Rightarrow> session \<Rightarrow> pystr option" where
  "spec_vsc_label w s =
     (case shell s of
        Shell r \<Rightarrow> (case vsc_var w of Var_str nb_path \<Rightarrow> Some (path_stem w nb_path) | _ \<Rightarrow> None)
      | _ \<Rightarrow> None)"

definition spec_parent_label :: "world \<Rightarrow> pystr option" where
  "spec_parent_label w =
     (case parent_cmdline w of
        Parent_cmdline cmdline \<Rightarrow> first_ipynb_arg w cmdline
      | _ \<Rightarrow> None)"

fun first_success :: "'a option list \<Rightarrow> 'a option" where
  "first_success [] = None"
| "first_success (None # rs) = first_success rs"
| "first_success (Some x # rs) = Some x"

definition spec_label_resolution :: "world \<Rightarrow> session \<Rightarrow> pystr option" where
  "spec_label_resolution w s = first_success [spec_vsc_label w s, spec_parent_label w]"

subsection \<open>The dispatcher (\<^verbatim>\<open>_get_alert_script_path\<close>, \<^verbatim>\<open>_show_alert\<close>)\<close>

definition alert_file :: pystr where
  "alert_file = ascii ''_show_alert.py''"

text \<open>
  The search, in the order of the source: each directory is asked for only when the
  candidate before it does not exist, and an exception of a lookup leaves the function.
\<close>

definition get_alert_script_path :: "world \<Rightarrow> pyexn + pystr option" where
  "get_alert_script_path w =
     (case path_exists w (path_join w (script_dir w) alert_file) of
        Inl e \<Rightarrow> Inl e
      | Inr True \<Rightarrow> Inr (Some (path_join w (script_dir w) alert_file))
      | Inr False \<Rightarrow>
          (case cwd w of
             Inl e \<Rightarrow> Inl e
           | Inr current \<Rightarrow>
               (case path_exists w (path_join w current alert_file) of
                  Inl e \<Rightarrow> Inl e
                | Inr True \<Rightarrow> Inr (Some (path_join w current alert_file))
                | Inr False \<Rightarrow>
                    (case home w of
                       Inl e \<Rightarrow> Inl e
                     | Inr user_home \<Rightarrow>
                         (case path_exists w (path_join w user_home alert_file) of
                            Inl e \<Rightarrow> Inl e
                          | Inr True \<Rightarrow> Inr (Some (path_join w user_home alert_file))
                          | Inr False \<Rightarrow> Inr None)))))"

definition not_found_warning :: pystr where
  "not_found_warning =
     warning_sign @ ascii '' Warning: _show_alert.py not found. Cannot show desktop alert.''"

definition launch_warning :: "pyexn \<Rightarrow> pystr" where
  "launch_warning e =
     (case e of PyException text \<Rightarrow>
        warning_sign @ ascii '' Warning: Could not launch alert: '' @ text)"

text \<open>
  The second line of both fallbacks: the conditional expression is the argument of
  \<^verbatim>\<open>print\<close>, so an empty message prints an empty line.
\<close>

definition status_line :: "bool \<Rightarrow> pystr \<Rightarrow> pystr" where
  "status_line success message =
     (if message \<noteq> []
      then check_mark @ ascii '' '' @ (if success then ascii ''SUCCESS'' else ascii ''ERROR'')
             @ ascii '': '' @ message
      else [])"

text \<open>
  Lines 118 and 119: the label the caller gave, or else \<^verbatim>\<open>_get_notebook_name() or ""\<close>,
  which is the probed name, and the empty string when the probe gives \<^verbatim>\<open>None\<close> or an
  empty name.
\<close>

definition resolve_label :: "world \<Rightarrow> pystr option \<Rightarrow> session \<Rightarrow> pyexn + pystr" where
  "resolve_label w notebook_name s =
     (case notebook_name of
        None \<Rightarrow>
          (case get_notebook_name w s of
             Inl e \<Rightarrow> Inl e
           | Inr None \<Rightarrow> Inr []
           | Inr (Some probed) \<Rightarrow> Inr (if probed = [] then [] else probed))
      | Some given \<Rightarrow> Inr given)"

definition status_token :: "bool \<Rightarrow> pystr" where
  "status_token success = (if success then ascii ''success'' else ascii ''error'')"

text \<open>
  \<^verbatim>\<open>_show_alert(success, message, notebook_name)\<close>. \<^verbatim>\<open>not alert_script\<close> holds for
  \<^verbatim>\<open>None\<close> and for the empty string. The search for the script and the label
  resolution are outside the \<^verbatim>\<open>try\<close>; only \<^verbatim>\<open>Popen\<close> is inside, and the two prints
  of its handler are not guarded by anything.
\<close>

definition show_alert :: "world \<Rightarrow> bool \<Rightarrow> pystr \<Rightarrow> pystr option \<Rightarrow> session \<Rightarrow> outcome" where
  "show_alert w success message notebook_name s =
     (let s0 = emit (Call_show_alert success message notebook_name) s;
          not_found = print_lines w [not_found_warning, status_line success message] s0
      in case get_alert_script_path w of
           Inl e \<Rightarrow> Raised e s0
         | Inr None \<Rightarrow> not_found
         | Inr (Some alert_script) \<Rightarrow>
             if alert_script = [] then not_found
             else
               let alert_type = status_token success in
               case resolve_label w notebook_name s0 of
                 Inl e \<Rightarrow> Raised e s0
               | Inr label \<Rightarrow>
                   (case popen w [sys_executable w, alert_script, alert_type, message, label] of
                      None \<Rightarrow>
                        Returned (emit (Popen [sys_executable w, alert_script, alert_type,
                                               message, label]) s0)
                    | Some e \<Rightarrow>
                        print_lines w [launch_warning e, status_line success message] s0))"

subsection \<open>The session interface (\<^verbatim>\<open>done\<close>, \<^verbatim>\<open>error\<close>)\<close>

text \<open>
  \<^verbatim>\<open>done\<close> is a keyword of Isabelle, so the two operations are \<open>done_alert\<close> and
  \<open>error_alert\<close>.
\<close>

definition done_default :: pystr where
  "done_default = ascii ''Notebook completed successfully!''"

definition error_default :: pystr where
  "error_default = ascii ''Notebook encountered an error!''"

definition done_alert :: "world \<Rightarrow> pystr \<Rightarrow> session \<Rightarrow> outcome" where
  "done_alert w message s =
     and_then (show_alert w True message None s)
       (print_line w (check_mark @ ascii '' '' @ message))"

definition error_alert :: "world \<Rightarrow> pystr \<Rightarrow> session \<Rightarrow> outcome" where
  "error_alert w message s =
     and_then (show_alert w False message None s)
       (print_line w (ballot_x @ ascii '' '' @ message))"

subsection \<open>The error hook (\<^verbatim>\<open>_setup_auto_error_detection\<close>, \<^verbatim>\<open>enable_alerts\<close>)\<close>

definition fallback_msg :: pystr where
  "fallback_msg = ascii ''An error occurred during execution''"

text \<open>
  Lines 195 to 203. The condition \<^verbatim>\<open>exc_type and exc_value\<close> takes the truth value of
  the class and, when that is true, of the instance; \<^verbatim>\<open>None\<close> is false. The generic
  message is used when the condition is false and when anything in the block raises.
\<close>

definition error_description :: "pyclass option \<times> pyinstance option \<Rightarrow> pystr" where
  "error_description info =
     (case
        (case fst info of
           None \<Rightarrow> Inr fallback_msg
         | Some exc_type \<Rightarrow>
             (case class_truth exc_type of
                Inl e \<Rightarrow> Inl e
              | Inr False \<Rightarrow> Inr fallback_msg
              | Inr True \<Rightarrow>
                  (case snd info of
                     None \<Rightarrow> Inr fallback_msg
                   | Some exc_value \<Rightarrow>
                       (case instance_truth exc_value of
                          Inl e \<Rightarrow> Inl e
                        | Inr False \<Rightarrow> Inr fallback_msg
                        | Inr True \<Rightarrow>
                            (case instance_str exc_value of
                               Inl e \<Rightarrow> Inl e
                             | Inr text \<Rightarrow>
                                 Inr (class_name exc_type @ ascii '': '' @ take 100 text))))))
      of
        Inl e \<Rightarrow> fallback_msg
      | Inr error_msg \<Rightarrow> error_msg)"

text \<open>
  The closure \<^verbatim>\<open>custom_showtraceback\<close>, with the routine it captured as its first
  argument. The captured routine is called outside any \<^verbatim>\<open>try\<close>, so its exception
  leaves the wrapper. The flag is read after the captured routine has returned.
\<close>

definition custom_showtraceback ::
  "(world \<Rightarrow> call_args \<Rightarrow> session \<Rightarrow> outcome) \<Rightarrow> world \<Rightarrow> call_args \<Rightarrow> session \<Rightarrow> outcome" where
  "custom_showtraceback original_showtraceback w args s =
     (case original_showtraceback w args s of
        Raised e s1 \<Rightarrow> Raised e s1
      | Returned s1 \<Rightarrow>
          if \<not> error_occurred s1
          then show_alert w False (error_description (exc_info w)) None
                 (s1\<lparr>error_occurred := True\<rparr>)
          else Returned s1)"

text \<open>
  Calling a routine. A routine of the host shell is called, which is an event, and then
  returns or raises as the world says.
\<close>

primrec call_routine :: "routine \<Rightarrow> world \<Rightarrow> call_args \<Rightarrow> session \<Rightarrow> outcome" where
  "call_routine (Builtin k) =
     (\<lambda>w args s.
        case host_showtraceback w k args of
          None \<Rightarrow> Returned (emit (Show_traceback k args) s)
        | Some e \<Rightarrow> Raised e (emit (Show_traceback k args) s))"
| "call_routine (Custom original) = custom_showtraceback (call_routine original)"

definition enabled_line :: pystr where
  "enabled_line =
     check_mark @ ascii '' Auto-error detection enabled - will alert if any cell fails!''"

text \<open>
  \<^verbatim>\<open>_setup_auto_error_detection\<close>. The body after the first test is inside
  \<^verbatim>\<open>try ... except Exception: pass\<close>: a failed import is swallowed with nothing done,
  and so is an exception of the last \<^verbatim>\<open>print\<close>, with the routine replaced and the flag
  set before it.
\<close>

definition setup_auto_error_detection :: "world \<Rightarrow> session \<Rightarrow> outcome" where
  "setup_auto_error_detection w s =
     (if error_handler_installed s then Returned s
      else
        case get_ipython s of
          Inl e \<Rightarrow> Returned s
        | Inr None \<Rightarrow> Returned s
        | Inr (Some original_showtraceback) \<Rightarrow>
            (case print_line w enabled_line
                    (s\<lparr>shell := Shell (Custom original_showtraceback),
                       error_handler_installed := True\<rparr>) of
               Raised e s1 \<Rightarrow> Returned s1
             | Returned s1 \<Rightarrow> Returned s1))"

definition banner :: "pystr list" where
  "banner =
     [check_mark @ ascii '' Notebook alerts enabled!'',
      ascii ''  - Errors will trigger automatic red alerts'',
      ascii ''  - Call done() in last cell for success alert'']"

definition enable_alerts :: "world \<Rightarrow> session \<Rightarrow> outcome" where
  "enable_alerts w s = and_then (setup_auto_error_detection w s) (print_lines w banner)"

text \<open>
  Loading the module: the two flags start false (lines 162 and 163) and line 219 runs
  the installation once.
\<close>

definition fresh_session :: "shell_ctx \<Rightarrow> session" where
  "fresh_session ctx =
     \<lparr>error_handler_installed = False, error_occurred = False, shell = ctx, events = []\<rparr>"

definition import_module :: "world \<Rightarrow> shell_ctx \<Rightarrow> outcome" where
  "import_module w ctx = setup_auto_error_detection w (fresh_session ctx)"

subsection \<open>Sessions as sequences of calls\<close>

text \<open>
  What happens in a session after the module is loaded: the notebook calls \<^verbatim>\<open>done\<close>,
  \<^verbatim>\<open>error\<close> or \<^verbatim>\<open>enable_alerts\<close>, or a cell fails and the shell calls its
  \<^verbatim>\<open>showtraceback\<close> attribute. Without a shell nothing calls that attribute. Each call
  has its own world. A call that raises fails its cell and the session goes on from the
  state the call left.
\<close>

datatype api_call =
  Done pystr
| Error pystr
| Enable_alerts
| Uncaught call_args

definition shell_showtraceback :: "world \<Rightarrow> call_args \<Rightarrow> session \<Rightarrow> outcome" where
  "shell_showtraceback w args s =
     (case shell s of
        Shell r \<Rightarrow> call_routine r w args s
      | _ \<Rightarrow> Returned s)"

fun api_step :: "world \<Rightarrow> api_call \<Rightarrow> session \<Rightarrow> outcome" where
  "api_step w (Done message) s = done_alert w message s"
| "api_step w (Error message) s = error_alert w message s"
| "api_step w Enable_alerts s = enable_alerts w s"
| "api_step w (Uncaught args) s = shell_showtraceback w args s"

fun run_session :: "(world \<times> api_call) list \<Rightarrow> session \<Rightarrow> session" where
  "run_session [] s = s"
| "run_session ((w, c) # cs) s = run_session cs (state_of (api_step w c s))"

text \<open>
  The dispatcher calls among some events, in order; the wrapper layers of a routine and
  the host routine under them.
\<close>

fun dispatcher_calls :: "event list \<Rightarrow> (bool \<times> pystr \<times> pystr option) list" where
  "dispatcher_calls [] = []"
| "dispatcher_calls (Call_show_alert success message label # es) =
     (success, message, label) # dispatcher_calls es"
| "dispatcher_calls (e # es) = dispatcher_calls es"

primrec layers :: "routine \<Rightarrow> nat" where
  "layers (Builtin k) = 0"
| "layers (Custom r) = Suc (layers r)"

primrec host_of :: "routine \<Rightarrow> nat" where
  "host_of (Builtin k) = k"
| "host_of (Custom r) = host_of r"

text \<open>Whether the host routine under \<open>r\<close> returns, in the world and on the arguments of a call.\<close>

definition host_returns :: "routine \<Rightarrow> world \<times> call_args \<Rightarrow> bool" where
  "host_returns r x \<longleftrightarrow> host_showtraceback (fst x) (host_of r) (snd x) = None"

text \<open>
  A run of failing cells: the shell calls its traceback routine once for each, with the
  world and the arguments of that call. A run of manual calls: \<^verbatim>\<open>done(m)\<close> for a true
  flag and \<^verbatim>\<open>error(m)\<close> for a false one.
\<close>

definition uncaught_calls :: "(world \<times> call_args) list \<Rightarrow> (world \<times> api_call) list" where
  "uncaught_calls xs = map (\<lambda>(w, args). (w, Uncaught args)) xs"


subsection \<open>Concrete worlds\<close>

text \<open>
  A world to evaluate the definitions in: a POSIX machine. \<open>posix_stem\<close> is
  \<^verbatim>\<open>PurePosixPath(p).stem\<close> for a path whose last component is a file name: that
  component, without its last suffix when the dot is neither its first nor its last
  character. The notifier script is beside the module, every lookup returns, the
  process starts, the standard output takes every line, the host routine returns, and
  the current exception is \<^verbatim>\<open>ValueError("boom")\<close>.
\<close>

definition posix_join :: "pystr \<Rightarrow> pystr \<Rightarrow> pystr" where
  "posix_join d n = d @ ascii ''/'' @ n"

definition posix_stem :: "pystr \<Rightarrow> pystr" where
  "posix_stem p =
     (let name = rev (takeWhile (\<lambda>c. c \<noteq> 47) (rev p));
          tail = takeWhile (\<lambda>c. c \<noteq> 46) (rev name);
          i = length name - length tail - 1
      in if length tail < length name \<and> 0 < i \<and> tail \<noteq> [] then take i name else name)"

definition demo_world :: world where
  "demo_world =
     \<lparr>script_dir = ascii ''/opt/alerts'',
      cwd = Inr (ascii ''/work''),
      home = Inr (ascii ''/home/u''),
      path_join = posix_join,
      path_exists = (\<lambda>p. Inr (p = ascii ''/opt/alerts/_show_alert.py'')),
      path_stem = posix_stem,
      sys_executable = ascii ''/usr/bin/python3'',
      popen = (\<lambda>argv. None),
      stdout_write = (\<lambda>line. None),
      host_showtraceback = (\<lambda>k args. None),
      vsc_var = Var_absent,
      parent_cmdline = Parent_cmdline [ascii ''jupyter'', ascii ''/work/nb.ipynb''],
      exc_info = (Some (PyClass (Inr True) (ascii ''ValueError'')),
                  Some (PyInstance (Inr True) (Inr (ascii ''boom''))))\<rparr>"

text \<open>
  A standard output with the ASCII encoding: \<^verbatim>\<open>print\<close> raises on a line that has a
  character above 127. A \<^verbatim>\<open>Popen\<close> and a standard output that raise on a lone
  surrogate (the code point 55296), as UTF-8 does.
\<close>

definition ascii_stdout :: "pystr \<Rightarrow> pyexn option" where
  "ascii_stdout line =
     (if list_all (\<lambda>c. c < 128) line then None
      else Some (PyException (ascii ''ascii codec cannot encode character'')))"



text \<open>
  Four worlds that differ from the first in one or two fields: the host routine raises;
  no script is anywhere and the standard output is ASCII; \<^verbatim>\<open>Popen\<close> and the standard
  output reject a lone surrogate; the current exception is an instance that is false
  (its class defines \<^verbatim>\<open>__bool__\<close> or \<^verbatim>\<open>__len__\<close>).
\<close>

definition failing_display_world :: world where
  "failing_display_world =
     demo_world\<lparr>host_showtraceback := (\<lambda>k args. Some (PyException (ascii ''display failed'')))\<rparr>"

definition ascii_world :: world where
  "ascii_world = demo_world\<lparr>path_exists := (\<lambda>p. Inr False), stdout_write := ascii_stdout\<rparr>"



text \<open>The session right after the module was loaded in a shell whose routine is number 0.\<close>

definition demo_installed :: session where
  "demo_installed =
     \<lparr>error_handler_installed = True, error_occurred = False,
      shell = Shell (Custom (Builtin 0)), events = [Print enabled_line]\<rparr>"

subsection \<open>Facts about strings\<close>

lemma ascii_eq_iff [simp]: "ascii a = ascii b \<longleftrightarrow> a = b"
  unfolding ascii_def by (simp add: inj_of_char)

lemma ascii_Nil [simp]: "ascii [] = []"
  by (simp add: ascii_def)

lemma ascii_eq_Nil_iff [simp]: "ascii a = [] \<longleftrightarrow> a = []"
  by (simp add: ascii_def)

lemma endswith_suffix: "endswith s suf \<longleftrightarrow> suffix suf s"
proof
  assume "endswith s suf"
  then have "s = take (length s - length suf) s @ suf"
    by (metis append_take_drop_id endswith_def)
  then show "suffix suf s" by (metis suffixI)
next
  assume "suffix suf s"
  then obtain pre where "s = pre @ suf" by (auto simp add: suffix_def)
  then show "endswith s suf" by (simp add: endswith_def)
qed

subsection \<open>Printing\<close>

lemma dispatcher_calls_append:
  "dispatcher_calls (xs @ ys) = dispatcher_calls xs @ dispatcher_calls ys"
  by (induction xs rule: dispatcher_calls.induct) simp_all

lemma dispatcher_calls_prints [simp]: "dispatcher_calls (map Print ls) = []"
  by (induction ls) simp_all

lemma print_line_ok:
  "stdout_write w line = None \<Longrightarrow> print_line w line s = Returned (emit (Print line) s)"
  by (simp add: print_line_def)

lemma print_line_raises:
  "stdout_write w line = Some e \<Longrightarrow> print_line w line s = Raised e s"
  by (simp add: print_line_def)

lemma print_line_raised:
  "print_line w line s = Raised e t \<Longrightarrow> stdout_write w line = Some e \<and> t = s"
  by (cases "stdout_write w line") (simp_all add: print_line_def)

lemma print_lines_ok:
  "\<forall>line \<in> set ls. stdout_write w line = None \<Longrightarrow>
     print_lines w ls s = Returned (s\<lparr>events := events s @ map Print ls\<rparr>)"
  by (induction ls arbitrary: s) (simp_all add: print_line_ok emit_def)

lemma print_lines_state:
  "\<exists>n. n \<le> length ls
     \<and> state_of (print_lines w ls s) = s\<lparr>events := events s @ map Print (take n ls)\<rparr>"
proof (induction ls arbitrary: s)
  case Nil
  show ?case by simp
next
  case (Cons line ls)
  show ?case
  proof (cases "stdout_write w line")
    case None
    obtain n where "n \<le> length ls"
      "state_of (print_lines w ls (emit (Print line) s))
        = (emit (Print line) s)\<lparr>events := events (emit (Print line) s) @ map Print (take n ls)\<rparr>"
      using Cons.IH by blast
    with None show ?thesis
      by (intro exI [of _ "Suc n"]) (simp add: print_line_ok emit_def)
  next
    case (Some e)
    then show ?thesis
      by (intro exI [of _ 0]) (simp add: print_line_raises)
  qed
qed

lemma print_lines_raised:
  "print_lines w ls s = Raised e t \<Longrightarrow> \<exists>line \<in> set ls. stdout_write w line = Some e"
proof (induction ls arbitrary: s)
  case Nil
  then show ?case by simp
next
  case (Cons line ls)
  show ?case
  proof (cases "stdout_write w line")
    case None
    with Cons.prems have "print_lines w ls (emit (Print line) s) = Raised e t"
      by (simp add: print_line_ok)
    from Cons.IH [OF this] show ?thesis by auto
  next
    case (Some e')
    with Cons.prems show ?thesis by (simp add: print_line_raises)
  qed
qed

subsection \<open>The shape of a dispatch and of a traceback call\<close>

lemma get_notebook_name_returns: "\<exists>r. get_notebook_name w s = Inr r"
  by (simp add: get_notebook_name_def split: sum.splits option.splits)

lemma get_notebook_name_shell:
  "shell s = shell t \<Longrightarrow> get_notebook_name w s = get_notebook_name w t"
  by (simp add: get_notebook_name_def get_ipython_def)

lemma resolve_label_returns: "\<exists>label. resolve_label w l s = Inr label"
  using get_notebook_name_returns [of w s]
  by (auto simp add: resolve_label_def split: option.splits)

lemma resolve_label_shell:
  "shell s = shell t \<Longrightarrow> resolve_label w l s = resolve_label w l t"
  using get_notebook_name_shell [of s t w] by (cases l) (simp_all add: resolve_label_def)

lemma resolve_label_emit: "resolve_label w l (emit e s) = resolve_label w l s"
  by (rule resolve_label_shell) (simp add: emit_def)

lemma show_alert_lookup_raises:
  assumes "get_alert_script_path w = Inl e"
  shows "show_alert w ok m l s = Raised e (emit (Call_show_alert ok m l) s)"
  using assms by (simp add: show_alert_def Let_def)

lemma show_alert_not_found:
  assumes "get_alert_script_path w = Inr None \<or> get_alert_script_path w = Inr (Some [])"
  shows "show_alert w ok m l s =
     print_lines w [not_found_warning, status_line ok m] (emit (Call_show_alert ok m l) s)"
  using assms by (auto simp add: show_alert_def Let_def)

lemma show_alert_launched:
  assumes "get_alert_script_path w = Inr (Some script)" and "script \<noteq> []"
    and "resolve_label w l s = Inr label"
    and "popen w [sys_executable w, script, status_token ok, m, label] = None"
  shows "show_alert w ok m l s =
     Returned (s\<lparr>events := events s @
       [Call_show_alert ok m l,
        Popen [sys_executable w, script, status_token ok, m, label]]\<rparr>)"
  using assms resolve_label_emit [of w l "Call_show_alert ok m l" s]
  by (simp add: show_alert_def Let_def) (simp add: emit_def)

lemma show_alert_launch_failed:
  assumes "get_alert_script_path w = Inr (Some script)" and "script \<noteq> []"
    and "resolve_label w l s = Inr label"
    and "popen w [sys_executable w, script, status_token ok, m, label] = Some e"
  shows "show_alert w ok m l s =
     print_lines w [launch_warning e, status_line ok m] (emit (Call_show_alert ok m l) s)"
  using assms resolve_label_emit [of w l "Call_show_alert ok m l" s]
  by (simp add: show_alert_def Let_def)

text \<open>
  The four ways a dispatch goes: a lookup raises; nothing is found; the process starts;
  \<^verbatim>\<open>Popen\<close> raises.
\<close>

lemma show_alert_cases:
  "(\<exists>e. get_alert_script_path w = Inl e
        \<and> show_alert w ok m l s = Raised e (emit (Call_show_alert ok m l) s))
   \<or> ((get_alert_script_path w = Inr None \<or> get_alert_script_path w = Inr (Some []))
        \<and> show_alert w ok m l s =
            print_lines w [not_found_warning, status_line ok m]
              (emit (Call_show_alert ok m l) s))
   \<or> (\<exists>script label. get_alert_script_path w = Inr (Some script) \<and> script \<noteq> []
        \<and> resolve_label w l s = Inr label
        \<and> popen w [sys_executable w, script, status_token ok, m, label] = None
        \<and> show_alert w ok m l s =
            Returned (s\<lparr>events := events s @
              [Call_show_alert ok m l,
               Popen [sys_executable w, script, status_token ok, m, label]]\<rparr>))
   \<or> (\<exists>script label e. get_alert_script_path w = Inr (Some script) \<and> script \<noteq> []
        \<and> resolve_label w l s = Inr label
        \<and> popen w [sys_executable w, script, status_token ok, m, label] = Some e
        \<and> show_alert w ok m l s =
            print_lines w [launch_warning e, status_line ok m]
              (emit (Call_show_alert ok m l) s))"
proof -
  obtain label where label: "resolve_label w l s = Inr label"
    using resolve_label_returns by blast
  show ?thesis
  proof (cases "get_alert_script_path w")
    case (Inl e)
    from show_alert_lookup_raises [OF this] Inl show ?thesis by blast
  next
    case (Inr found)
    show ?thesis
    proof (cases "found = None \<or> found = Some []")
      case True
      with Inr have "get_alert_script_path w = Inr None \<or> get_alert_script_path w = Inr (Some [])"
        by auto
      from show_alert_not_found [OF this] this show ?thesis by blast
    next
      case False
      then obtain script where "found = Some script" and nonempty: "script \<noteq> []"
        by auto
      with Inr have script: "get_alert_script_path w = Inr (Some script)" by simp
      show ?thesis
      proof (cases "popen w [sys_executable w, script, status_token ok, m, label]")
        case None
        from show_alert_launched [OF script nonempty label None] script nonempty label None
        show ?thesis by blast
      next
        case (Some e)
        from show_alert_launch_failed [OF script nonempty label Some] script nonempty label Some
        show ?thesis by blast
      qed
    qed
  qed
qed

lemma print_lines_after_call:
  "\<exists>rest. state_of (print_lines w ls (emit (Call_show_alert ok m l) s))
       = s\<lparr>events := events s @ Call_show_alert ok m l # rest\<rparr>
     \<and> dispatcher_calls rest = []
     \<and> (\<forall>k a. Show_traceback k a \<notin> set rest)
     \<and> (\<forall>argv. Popen argv \<notin> set rest)"
proof -
  obtain n where
    "state_of (print_lines w ls (emit (Call_show_alert ok m l) s))
      = (emit (Call_show_alert ok m l) s)\<lparr>events :=
          events (emit (Call_show_alert ok m l) s) @ map Print (take n ls)\<rparr>"
    using print_lines_state [of ls w "emit (Call_show_alert ok m l) s"] by blast
  then show ?thesis
    by (intro exI [of _ "map Print (take n ls)"]) (auto simp add: emit_def)
qed

lemma show_alert_shape:
  "\<exists>rest. state_of (show_alert w ok m l s)
       = s\<lparr>events := events s @ Call_show_alert ok m l # rest\<rparr>
     \<and> dispatcher_calls rest = []
     \<and> (\<forall>k a. Show_traceback k a \<notin> set rest)
     \<and> (\<forall>argv. Popen argv \<in> set rest \<longrightarrow>
          (\<exists>script label. get_alert_script_path w = Inr (Some script)
             \<and> resolve_label w l s = Inr label
             \<and> argv = [sys_executable w, script, status_token ok, m, label]))"
proof -
  consider
    (lookup) e where "show_alert w ok m l s = Raised e (emit (Call_show_alert ok m l) s)"
  | (printed) ls where "show_alert w ok m l s = print_lines w ls (emit (Call_show_alert ok m l) s)"
  | (launched) script label where "get_alert_script_path w = Inr (Some script)"
      "resolve_label w l s = Inr label"
      "show_alert w ok m l s =
         Returned (s\<lparr>events := events s @
           [Call_show_alert ok m l,
            Popen [sys_executable w, script, status_token ok, m, label]]\<rparr>)"
    using show_alert_cases [of w ok m l s] by blast
  then show ?thesis
  proof cases
    case lookup
    then show ?thesis by (intro exI [of _ "[]"]) (simp add: emit_def)
  next
    case printed
    with print_lines_after_call [of w ls ok m l s] show ?thesis by auto
  next
    case launched
    then show ?thesis
      by (intro exI [of _ "[Popen [sys_executable w, script, status_token ok, m, label]]"]) simp
  qed
qed

lemma show_alert_raised:
  assumes "show_alert w ok m l s = Raised e t"
  shows "get_alert_script_path w = Inl e \<or> (\<exists>line. stdout_write w line = Some e)"
proof -
  consider
    (lookup) e' where "get_alert_script_path w = Inl e'"
      "show_alert w ok m l s = Raised e' (emit (Call_show_alert ok m l) s)"
  | (printed) ls where "show_alert w ok m l s = print_lines w ls (emit (Call_show_alert ok m l) s)"
  | (launched) t' where "show_alert w ok m l s = Returned t'"
    using show_alert_cases [of w ok m l s] by blast
  then show ?thesis
  proof cases
    case lookup
    with assms show ?thesis by simp
  next
    case printed
    with assms have "print_lines w ls (emit (Call_show_alert ok m l) s) = Raised e t"
      by simp
    from print_lines_raised [OF this] show ?thesis by blast
  next
    case launched
    with assms show ?thesis by simp
  qed
qed

lemma show_alert_returns:
  assumes "\<forall>e. get_alert_script_path w \<noteq> Inl e" and "\<forall>line. stdout_write w line = None"
  shows "\<exists>t. show_alert w ok m l s = Returned t"
proof (cases "show_alert w ok m l s")
  case (Returned t)
  then show ?thesis by simp
next
  case (Raised e t)
  from show_alert_raised [OF this] assms show ?thesis by simp
qed

subsection \<open>Traceback calls in a session\<close>

lemma call_routine_host_raises:
  assumes "host_showtraceback w (host_of r) args = Some e"
  shows "call_routine r w args s = Raised e (emit (Show_traceback (host_of r) args) s)"
  using assms by (induction r) (simp_all add: custom_showtraceback_def)

lemma call_routine_returned:
  assumes "call_routine r w args s = Returned t"
  shows "host_returns r (w, args)"
proof (cases "host_showtraceback w (host_of r) args")
  case None
  then show ?thesis by (simp add: host_returns_def)
next
  case (Some e)
  from call_routine_host_raises [OF this] assms show ?thesis by simp
qed

lemma call_routine_shape:
  "\<exists>new. state_of (call_routine r w args s) =
       s\<lparr>error_occurred := error_occurred s \<or> (0 < layers r \<and> host_returns r (w, args)),
         events := events s @ new\<rparr>
     \<and> dispatcher_calls new =
         (if \<not> error_occurred s \<and> 0 < layers r \<and> host_returns r (w, args)
          then [(False, error_description (exc_info w), None)] else [])"
proof (induction r)
  case (Builtin k)
  show ?case
    by (intro exI [of _ "[Show_traceback k args]"])
      (simp add: emit_def split: option.splits)
next
  case (Custom r)
  let ?hr = "host_returns r (w, args)"
  have same_host: "host_returns (Custom r) (w, args) = ?hr"
    by (simp add: host_returns_def)
  obtain new where
    inner: "state_of (call_routine r w args s) =
       s\<lparr>error_occurred := error_occurred s \<or> (0 < layers r \<and> ?hr), events := events s @ new\<rparr>"
    and calls: "dispatcher_calls new =
         (if \<not> error_occurred s \<and> 0 < layers r \<and> ?hr
          then [(False, error_description (exc_info w), None)] else [])"
    using Custom.IH by blast
  let ?s1 = "s\<lparr>error_occurred := error_occurred s \<or> (0 < layers r \<and> ?hr),
    events := events s @ new\<rparr>"
  show ?case
  proof (cases "call_routine r w args s")
    case (Raised e t)
    have "\<not> ?hr \<or> 0 < layers r"
    proof (cases r)
      case (Builtin k)
      with Raised show ?thesis by (simp add: host_returns_def split: option.splits)
    next
      case (Custom r')
      then show ?thesis by simp
    qed
    moreover from Raised inner have "state_of (call_routine (Custom r) w args s) = ?s1"
      by (simp add: custom_showtraceback_def)
    ultimately show ?thesis using calls same_host
      by (intro exI [of _ new]) auto
  next
    case (Returned t)
    then have hr: ?hr by (rule call_routine_returned)
    from Returned inner have t: "t = ?s1" by simp
    show ?thesis
    proof (cases "error_occurred s \<or> 0 < layers r")
      case True
      with Returned t hr have "state_of (call_routine (Custom r) w args s) =
          s\<lparr>error_occurred := True, events := events s @ new\<rparr>"
        by (simp add: custom_showtraceback_def)
      with True calls hr same_host show ?thesis
        by (intro exI [of _ new]) auto
    next
      case False
      let ?t = "?s1\<lparr>error_occurred := True\<rparr>"
      obtain rest where
        alert: "state_of (show_alert w False (error_description (exc_info w)) None ?t) =
           ?t\<lparr>events := events ?t @
                    Call_show_alert False (error_description (exc_info w)) None # rest\<rparr>"
        and rest: "dispatcher_calls rest = []"
        using show_alert_shape [of w False "error_description (exc_info w)" None ?t] by blast
      from False Returned t alert have "state_of (call_routine (Custom r) w args s) =
          s\<lparr>error_occurred := True,
                 events := events s @ (new @
                    Call_show_alert False (error_description (exc_info w)) None # rest)\<rparr>"
        by (simp add: custom_showtraceback_def)
      with False calls rest hr same_host show ?thesis
        by (intro exI [of _ "new @ Call_show_alert False (error_description (exc_info w)) None # rest"])
          (simp add: dispatcher_calls_append)
    qed
  qed
qed

lemma shell_showtraceback_shape:
  assumes "shell s = Shell r"
  shows "\<exists>new. state_of (shell_showtraceback w args s) =
       s\<lparr>error_occurred := error_occurred s \<or> (0 < layers r \<and> host_returns r (w, args)),
         events := events s @ new\<rparr>
     \<and> dispatcher_calls new =
         (if \<not> error_occurred s \<and> 0 < layers r \<and> host_returns r (w, args)
          then [(False, error_description (exc_info w), None)] else [])"
  using assms call_routine_shape [of r w args s] by (simp add: shell_showtraceback_def)

text \<open>
  A run of traceback calls: the flag is set, and the one dispatcher call made, at the
  first call on which the host routine returns.
\<close>

lemma uncaught_run_shape:
  assumes "shell s = Shell r"
  shows "\<exists>new. run_session (uncaught_calls xs) s =
       s\<lparr>error_occurred := error_occurred s \<or> (0 < layers r \<and> find (host_returns r) xs \<noteq> None),
         events := events s @ new\<rparr>
     \<and> dispatcher_calls new =
         (if \<not> error_occurred s \<and> 0 < layers r
          then (case find (host_returns r) xs of
                  None \<Rightarrow> []
                | Some x \<Rightarrow> [(False, error_description (exc_info (fst x)), None)])
          else [])"
  using assms
proof (induction xs arbitrary: s)
  case Nil
  show ?case by (intro exI [of _ "[]"]) (simp add: uncaught_calls_def)
next
  case (Cons x xs)
  obtain w args where x: "x = (w, args)" by (cases x)
  let ?hr = "host_returns r (w, args)"
  let ?s1 = "\<lambda>new. s\<lparr>error_occurred := error_occurred s \<or> (0 < layers r \<and> ?hr),
    events := events s @ new\<rparr>"
  obtain new1 where
    step: "state_of (shell_showtraceback w args s) = ?s1 new1"
    and calls1: "dispatcher_calls new1 =
         (if \<not> error_occurred s \<and> 0 < layers r \<and> ?hr
          then [(False, error_description (exc_info w), None)] else [])"
    using shell_showtraceback_shape [OF Cons.prems, of w args] by blast
  have "shell (?s1 new1) = Shell r" using Cons.prems by simp
  from Cons.IH [OF this] obtain new2 where
    rest: "run_session (uncaught_calls xs) (?s1 new1) =
       (?s1 new1)\<lparr>error_occurred := error_occurred (?s1 new1)
            \<or> (0 < layers r \<and> find (host_returns r) xs \<noteq> None),
          events := events (?s1 new1) @ new2\<rparr>"
    and calls2: "dispatcher_calls new2 =
         (if \<not> error_occurred (?s1 new1) \<and> 0 < layers r
          then (case find (host_returns r) xs of
                  None \<Rightarrow> []
                | Some x \<Rightarrow> [(False, error_description (exc_info (fst x)), None)])
          else [])"
    by blast
  have flag: "(error_occurred (?s1 new1) \<or> (0 < layers r \<and> find (host_returns r) xs \<noteq> None))
      = (error_occurred s \<or> (0 < layers r \<and> find (host_returns r) (x # xs) \<noteq> None))"
    using x by auto
  have "run_session (uncaught_calls (x # xs)) s =
       s\<lparr>error_occurred := error_occurred s
            \<or> (0 < layers r \<and> find (host_returns r) (x # xs) \<noteq> None),
          events := events s @ (new1 @ new2)\<rparr>"
    using step rest x flag by (simp add: uncaught_calls_def)
  moreover have "dispatcher_calls (new1 @ new2) =
         (if \<not> error_occurred s \<and> 0 < layers r
          then (case find (host_returns r) (x # xs) of
                  None \<Rightarrow> []
                | Some x \<Rightarrow> [(False, error_description (exc_info (fst x)), None)])
          else [])"
    using calls1 calls2 x
    by (cases "error_occurred s"; cases "layers r"; cases ?hr)
      (simp_all add: dispatcher_calls_append)
  ultimately show ?case
    by (intro exI [of _ "new1 @ new2"]) simp
qed

subsection \<open>At most one automatic alert in a session\<close>

lemma find_host_returns_None:
  "find (host_returns r) xs = None \<longleftrightarrow> (\<forall>x \<in> set xs. \<not> host_returns r x)"
  by (auto simp add: find_None_iff)

text \<open>
  C1, as stated, fails: when the routine of the host shell raises on every call, three
  calls of the installed wrapper make no dispatcher call and leave the flag false.
\<close>

theorem error_hook_alerts_once_counterexample:
  "shell demo_installed = Shell (Custom (Builtin 0))
   \<and> \<not> error_occurred demo_installed
   \<and> run_session
        (uncaught_calls
          [(failing_display_world, ([], [])), (failing_display_world, ([], [])),
           (failing_display_world, ([], []))])
        demo_installed
      = demo_installed\<lparr>events := events demo_installed @
          [Show_traceback 0 ([], []), Show_traceback 0 ([], []), Show_traceback 0 ([], [])]\<rparr>
   \<and> dispatcher_calls
        [Show_traceback 0 ([], []), Show_traceback 0 ([], []), Show_traceback 0 ([], [])] = []"
  by (simp add: uncaught_calls_def shell_showtraceback_def demo_installed_def
      custom_showtraceback_def failing_display_world_def emit_def)

text \<open>
  C1, amended. In a session whose shell has the wrapper installed and whose alert flag
  is false, every run of calls of the installed traceback routine adds at most one
  dispatcher call, and it has \<open>success\<close> false. It adds exactly one, and ends with the
  flag set, when the host routine returns on some call of the run; it adds none, and
  the flag stays false, when the host routine raises on every call. The call that
  dispatches is the first on which the host routine returns: it dispatches the
  description of its exception and sets the flag, and every call after it, in any
  world and with any arguments, adds no dispatcher call. A call on which the host
  routine raises raises the same exception, adds no dispatcher call and leaves the flag.
\<close>

theorem error_hook_alerts_at_most_once:
  assumes "shell s = Shell (Custom r)" and "\<not> error_occurred s"
  shows "(\<exists>new. events (run_session (uncaught_calls xs) s) = events s @ new
            \<and> shell (run_session (uncaught_calls xs) s) = Shell (Custom r)
            \<and> length (dispatcher_calls new) \<le> 1
            \<and> dispatcher_calls new =
                 (case find (host_returns (Custom r)) xs of
                    None \<Rightarrow> []
                  | Some x \<Rightarrow> [(False, error_description (exc_info (fst x)), None)])
            \<and> ((\<exists>x \<in> set xs. host_returns (Custom r) x) \<longrightarrow>
                  (\<exists>m. dispatcher_calls new = [(False, m, None)])
                  \<and> error_occurred (run_session (uncaught_calls xs) s))
            \<and> ((\<forall>x \<in> set xs. \<not> host_returns (Custom r) x) \<longrightarrow>
                  dispatcher_calls new = []
                  \<and> \<not> error_occurred (run_session (uncaught_calls xs) s)))
       \<and> (host_returns (Custom r) (w, args) \<longrightarrow>
            (\<exists>s1 new. state_of (shell_showtraceback w args s) = s1
               \<and> events s1 = events s @ new
               \<and> dispatcher_calls new = [(False, error_description (exc_info w), None)]
               \<and> error_occurred s1 \<and> shell s1 = Shell (Custom r)
               \<and> (\<forall>w' args'. \<exists>s2 new'. state_of (shell_showtraceback w' args' s1) = s2
                     \<and> events s2 = events s1 @ new'
                     \<and> dispatcher_calls new' = []
                     \<and> error_occurred s2 \<and> shell s2 = Shell (Custom r))))
       \<and> (host_showtraceback w (host_of (Custom r)) args = Some e \<longrightarrow>
            shell_showtraceback w args s
              = Raised e (emit (Show_traceback (host_of (Custom r)) args) s))"
proof (intro conjI impI)
  let ?end = "run_session (uncaught_calls xs) s"
  obtain new where
    run: "?end =
       s\<lparr>error_occurred := error_occurred s
            \<or> (0 < layers (Custom r) \<and> find (host_returns (Custom r)) xs \<noteq> None),
         events := events s @ new\<rparr>"
    and calls: "dispatcher_calls new =
         (if \<not> error_occurred s \<and> 0 < layers (Custom r)
          then (case find (host_returns (Custom r)) xs of
                  None \<Rightarrow> []
                | Some x \<Rightarrow> [(False, error_description (exc_info (fst x)), None)])
          else [])"
    using uncaught_run_shape [OF assms(1), of xs] by blast
  have some: "(\<exists>m. dispatcher_calls new = [(False, m, None)]) \<and> error_occurred ?end"
    if "\<exists>x \<in> set xs. host_returns (Custom r) x"
  proof -
    from that obtain x where "find (host_returns (Custom r)) xs = Some x"
      using find_host_returns_None [of "Custom r" xs] by (cases "find (host_returns (Custom r)) xs") auto
    with run calls assms(2) show ?thesis by simp
  qed
  have none: "dispatcher_calls new = [] \<and> \<not> error_occurred ?end"
    if "\<forall>x \<in> set xs. \<not> host_returns (Custom r) x"
  proof -
    from that have "find (host_returns (Custom r)) xs = None"
      using find_host_returns_None [of "Custom r" xs] by blast
    with run calls assms(2) show ?thesis by simp
  qed
  have bound: "length (dispatcher_calls new) \<le> 1"
    using calls by (simp split: option.splits)
  have exact: "dispatcher_calls new =
      (case find (host_returns (Custom r)) xs of
         None \<Rightarrow> []
       | Some x \<Rightarrow> [(False, error_description (exc_info (fst x)), None)])"
    using calls assms(2) by simp
  from run assms(1) bound exact some none
  show "\<exists>new. events ?end = events s @ new
            \<and> shell ?end = Shell (Custom r)
            \<and> length (dispatcher_calls new) \<le> 1
            \<and> dispatcher_calls new =
                 (case find (host_returns (Custom r)) xs of
                    None \<Rightarrow> []
                  | Some x \<Rightarrow> [(False, error_description (exc_info (fst x)), None)])
            \<and> ((\<exists>x \<in> set xs. host_returns (Custom r) x) \<longrightarrow>
                  (\<exists>m. dispatcher_calls new = [(False, m, None)]) \<and> error_occurred ?end)
            \<and> ((\<forall>x \<in> set xs. \<not> host_returns (Custom r) x) \<longrightarrow>
                  dispatcher_calls new = [] \<and> \<not> error_occurred ?end)"
    by (intro exI [of _ new]) simp
next
  assume returns: "host_returns (Custom r) (w, args)"
  obtain new where
    step: "state_of (shell_showtraceback w args s) =
       s\<lparr>error_occurred := True, events := events s @ new\<rparr>"
    and calls: "dispatcher_calls new = [(False, error_description (exc_info w), None)]"
    using shell_showtraceback_shape [OF assms(1), of w args] assms(2) returns by auto
  let ?s1 = "s\<lparr>error_occurred := True, events := events s @ new\<rparr>"
  have later: "\<exists>s2 new'. state_of (shell_showtraceback w' args' ?s1) = s2
                   \<and> events s2 = events ?s1 @ new'
                   \<and> dispatcher_calls new' = []
                   \<and> error_occurred s2 \<and> shell s2 = Shell (Custom r)" for w' args'
    using shell_showtraceback_shape [of ?s1 "Custom r" w' args'] assms(1) by auto
  show "\<exists>s1 new. state_of (shell_showtraceback w args s) = s1
             \<and> events s1 = events s @ new
             \<and> dispatcher_calls new = [(False, error_description (exc_info w), None)]
             \<and> error_occurred s1 \<and> shell s1 = Shell (Custom r)
             \<and> (\<forall>w' args'. \<exists>s2 new'. state_of (shell_showtraceback w' args' s1) = s2
                   \<and> events s2 = events s1 @ new'
                   \<and> dispatcher_calls new' = []
                   \<and> error_occurred s2 \<and> shell s2 = Shell (Custom r))"
    using step calls later assms(1)
    by (intro exI [of _ ?s1] exI [of _ new]) simp
next
  assume "host_showtraceback w (host_of (Custom r)) args = Some e"
  from call_routine_host_raises [OF this] assms(1)
  show "shell_showtraceback w args s
      = Raised e (emit (Show_traceback (host_of (Custom r)) args) s)"
    by (simp add: shell_showtraceback_def)
qed

theorem error_hook_alerts_at_most_once_witness:
  "shell demo_installed = Shell (Custom (Builtin 0)) \<and> \<not> error_occurred demo_installed
   \<and> (\<exists>x \<in> set [(failing_display_world, ([], [])), (demo_world, ([], [])),
                    (demo_world, ([], []))]. host_returns (Custom (Builtin 0)) x)
   \<and> (\<exists>new m.
         events (run_session (uncaught_calls
            [(failing_display_world, ([], [])), (demo_world, ([], [])), (demo_world, ([], []))])
            demo_installed) = events demo_installed @ new
         \<and> dispatcher_calls new = [(False, m, None)])
   \<and> error_occurred (run_session (uncaught_calls
        [(failing_display_world, ([], [])), (demo_world, ([], [])), (demo_world, ([], []))])
        demo_installed)
   \<and> host_showtraceback failing_display_world (host_of (Custom (Builtin 0))) ([], [])
       = Some (PyException (ascii ''display failed''))
   \<and> shell_showtraceback failing_display_world ([], []) demo_installed
       = Raised (PyException (ascii ''display failed''))
           (emit (Show_traceback (host_of (Custom (Builtin 0))) ([], [])) demo_installed)"
proof -
  let ?xs = "[(failing_display_world, ([], [])), (demo_world, ([], [])), (demo_world, ([], []))]"
  have sh: "shell demo_installed = Shell (Custom (Builtin 0))"
    and flag: "\<not> error_occurred demo_installed"
    by (simp_all add: demo_installed_def)
  have some: "\<exists>x \<in> set ?xs. host_returns (Custom (Builtin 0)) x"
    by (simp add: host_returns_def demo_world_def)
  have raises: "host_showtraceback failing_display_world (host_of (Custom (Builtin 0))) ([], [])
       = Some (PyException (ascii ''display failed''))"
    by (simp add: failing_display_world_def)
  note inst = error_hook_alerts_at_most_once [OF sh flag, where xs = ?xs
      and w = failing_display_world and args = "([], [])"
      and e = "PyException (ascii ''display failed'')"]
  from inst some have one: "\<exists>new m.
         events (run_session (uncaught_calls ?xs) demo_installed) = events demo_installed @ new
         \<and> dispatcher_calls new = [(False, m, None)]"
    and two: "error_occurred (run_session (uncaught_calls ?xs) demo_installed)"
    by blast+
  from inst raises have three: "shell_showtraceback failing_display_world ([], []) demo_installed
       = Raised (PyException (ascii ''display failed''))
           (emit (Show_traceback (host_of (Custom (Builtin 0))) ([], [])) demo_installed)"
    by blast
  from sh flag some one two raises three show ?thesis by blast
qed

subsection \<open>The wrapper calls the captured routine first\<close>

text \<open>
  C6. On every call of the wrapper, in any world, with any arguments and in any session
  state, the routine captured at the installation is called first, with the same
  arguments and on the session as it is, before the alert flag is read: if that routine
  raises, the wrapper raises the same exception and has done nothing else; if it
  returns, the wrapper goes on from the state it returned, adds no further traceback
  display, returns that state as it is when the flag is set, and otherwise is the
  dispatch from that state with the flag set. For a wrapper around a host routine the
  first event of every call is the call of that routine with the same arguments, and it
  is the only event when the flag is set. The wrapper returns whenever the captured
  routine returns, no lookup of the script search raises and every print succeeds. The
  installation captures the routine that is in place.
\<close>

theorem wrapper_calls_original_first:
  "(original w args s = Raised e s1 \<longrightarrow> custom_showtraceback original w args s = Raised e s1)
   \<and> (original w args s = Returned s1 \<longrightarrow>
        (\<exists>rest. events (state_of (custom_showtraceback original w args s)) = events s1 @ rest
           \<and> (\<forall>k a. Show_traceback k a \<notin> set rest))
        \<and> (error_occurred s1 \<longrightarrow> custom_showtraceback original w args s = Returned s1)
        \<and> (\<not> error_occurred s1 \<longrightarrow>
              custom_showtraceback original w args s
                = show_alert w False (error_description (exc_info w)) None
                    (s1\<lparr>error_occurred := True\<rparr>))
        \<and> ((\<forall>e. get_alert_script_path w \<noteq> Inl e) \<and> (\<forall>line. stdout_write w line = None) \<longrightarrow>
              (\<exists>s'. custom_showtraceback original w args s = Returned s')))
   \<and> (\<exists>rest. events (state_of (call_routine (Custom (Builtin k)) w args s))
           = events s @ Show_traceback k args # rest
         \<and> (\<forall>k a. Show_traceback k a \<notin> set rest)
         \<and> (error_occurred s \<longrightarrow> rest = []))
   \<and> (\<not> error_handler_installed s \<and> shell s = Shell r \<longrightarrow>
        (\<exists>s'. setup_auto_error_detection w s = Returned s' \<and> shell s' = Shell (Custom r)))"
proof -
  have wrap: "(\<exists>rest. events (state_of (custom_showtraceback f w args s)) = events t @ rest
           \<and> (\<forall>k a. Show_traceback k a \<notin> set rest)
           \<and> (error_occurred t \<longrightarrow> rest = []))
        \<and> (error_occurred t \<longrightarrow> custom_showtraceback f w args s = Returned t)
        \<and> (\<not> error_occurred t \<longrightarrow>
              custom_showtraceback f w args s
                = show_alert w False (error_description (exc_info w)) None
                    (t\<lparr>error_occurred := True\<rparr>))
        \<and> ((\<forall>e. get_alert_script_path w \<noteq> Inl e) \<and> (\<forall>line. stdout_write w line = None) \<longrightarrow>
              (\<exists>s'. custom_showtraceback f w args s = Returned s'))"
    if f: "f w args s = Returned t" for f t
  proof (cases "error_occurred t")
    case True
    with f show ?thesis by (simp add: custom_showtraceback_def)
  next
    case False
    let ?t = "t\<lparr>error_occurred := True\<rparr>"
    let ?alert = "show_alert w False (error_description (exc_info w)) None ?t"
    have eq: "custom_showtraceback f w args s = ?alert"
      using f False by (simp add: custom_showtraceback_def)
    obtain rest where
      "state_of ?alert =
         ?t\<lparr>events := events ?t @
            Call_show_alert False (error_description (exc_info w)) None # rest\<rparr>"
      and "\<forall>k a. Show_traceback k a \<notin> set rest"
      using show_alert_shape [of w False "error_description (exc_info w)" None ?t] by blast
    then have events: "\<exists>rest. events (state_of ?alert) = events t @ rest
           \<and> (\<forall>k a. Show_traceback k a \<notin> set rest)
           \<and> (error_occurred t \<longrightarrow> rest = [])"
      using False
      by (intro exI [of _ "Call_show_alert False (error_description (exc_info w)) None # rest"])
        simp
    have returns: "(\<forall>e. get_alert_script_path w \<noteq> Inl e) \<and> (\<forall>line. stdout_write w line = None) \<longrightarrow>
              (\<exists>s'. ?alert = Returned s')"
      using show_alert_returns [of w False "error_description (exc_info w)" None ?t] by blast
    from eq events returns False show ?thesis by simp
  qed
  have first: "original w args s = Raised e s1 \<longrightarrow>
      custom_showtraceback original w args s = Raised e s1"
    by (simp add: custom_showtraceback_def)
  have second: "original w args s = Returned s1 \<longrightarrow>
        (\<exists>rest. events (state_of (custom_showtraceback original w args s)) = events s1 @ rest
           \<and> (\<forall>k a. Show_traceback k a \<notin> set rest))
        \<and> (error_occurred s1 \<longrightarrow> custom_showtraceback original w args s = Returned s1)
        \<and> (\<not> error_occurred s1 \<longrightarrow>
              custom_showtraceback original w args s
                = show_alert w False (error_description (exc_info w)) None
                    (s1\<lparr>error_occurred := True\<rparr>))
        \<and> ((\<forall>e. get_alert_script_path w \<noteq> Inl e) \<and> (\<forall>line. stdout_write w line = None) \<longrightarrow>
              (\<exists>s'. custom_showtraceback original w args s = Returned s'))"
    using wrap [of original s1] by blast
  have third: "\<exists>rest. events (state_of (call_routine (Custom (Builtin k)) w args s))
           = events s @ Show_traceback k args # rest
         \<and> (\<forall>k a. Show_traceback k a \<notin> set rest)
         \<and> (error_occurred s \<longrightarrow> rest = [])"
  proof (cases "host_showtraceback w k args")
    case (Some e')
    then have "call_routine (Custom (Builtin k)) w args s
        = Raised e' (emit (Show_traceback k args) s)"
      by (simp add: custom_showtraceback_def)
    then show ?thesis by (intro exI [of _ "[]"]) (simp add: emit_def)
  next
    case None
    then have "call_routine (Builtin k) w args s = Returned (emit (Show_traceback k args) s)"
      by simp
    from wrap [of "call_routine (Builtin k)" "emit (Show_traceback k args) s", OF this]
    show ?thesis by (auto simp add: emit_def)
  qed
  have fourth: "\<not> error_handler_installed s \<and> shell s = Shell r \<longrightarrow>
        (\<exists>s'. setup_auto_error_detection w s = Returned s' \<and> shell s' = Shell (Custom r))"
    by (cases "stdout_write w enabled_line")
      (simp_all add: setup_auto_error_detection_def get_ipython_def print_line_def emit_def)
  from first second third fourth show ?thesis by blast
qed

theorem wrapper_calls_original_first_witness:
  "call_routine (Builtin 0) failing_display_world ([], []) demo_installed
      = Raised (PyException (ascii ''display failed''))
          (emit (Show_traceback 0 ([], [])) demo_installed)
   \<and> custom_showtraceback (call_routine (Builtin 0)) failing_display_world ([], [])
        demo_installed
      = Raised (PyException (ascii ''display failed''))
          (emit (Show_traceback 0 ([], [])) demo_installed)
   \<and> call_routine (Builtin 0) demo_world ([], []) (demo_installed\<lparr>error_occurred := True\<rparr>)
      = Returned (emit (Show_traceback 0 ([], [])) (demo_installed\<lparr>error_occurred := True\<rparr>))
   \<and> error_occurred (emit (Show_traceback 0 ([], [])) (demo_installed\<lparr>error_occurred := True\<rparr>))
   \<and> custom_showtraceback (call_routine (Builtin 0)) demo_world ([], [])
        (demo_installed\<lparr>error_occurred := True\<rparr>)
      = Returned (emit (Show_traceback 0 ([], [])) (demo_installed\<lparr>error_occurred := True\<rparr>))
   \<and> call_routine (Builtin 0) demo_world ([], []) demo_installed
      = Returned (emit (Show_traceback 0 ([], [])) demo_installed)
   \<and> (\<exists>s'. custom_showtraceback (call_routine (Builtin 0)) demo_world ([], []) demo_installed
          = Returned s')
   \<and> \<not> error_handler_installed (fresh_session (Shell (Builtin 0)))
   \<and> shell (fresh_session (Shell (Builtin 0))) = Shell (Builtin 0)
   \<and> (\<exists>s'. setup_auto_error_detection demo_world (fresh_session (Shell (Builtin 0))) = Returned s'
          \<and> shell s' = Shell (Custom (Builtin 0)))"
proof -
  let ?failed = "PyException (ascii ''display failed'')"
  let ?later = "demo_installed\<lparr>error_occurred := True\<rparr>"
  let ?shown = "emit (Show_traceback 0 ([], [])) ?later"
  let ?first = "emit (Show_traceback 0 ([], [])) demo_installed"
  have raises: "call_routine (Builtin 0) failing_display_world ([], []) demo_installed
      = Raised ?failed ?first"
    by (simp add: failing_display_world_def)
  have returns: "call_routine (Builtin 0) demo_world ([], []) ?later = Returned ?shown"
    by (simp add: demo_world_def)
  have flag: "error_occurred ?shown"
    by (simp add: emit_def)
  have returns_first: "call_routine (Builtin 0) demo_world ([], []) demo_installed
      = Returned ?first"
    by (simp add: demo_world_def)
  have quiet: "(\<forall>e. get_alert_script_path demo_world \<noteq> Inl e)
      \<and> (\<forall>line. stdout_write demo_world line = None)"
    by (simp add: get_alert_script_path_def demo_world_def posix_join_def alert_file_def
        ascii_def)
  have fresh: "\<not> error_handler_installed (fresh_session (Shell (Builtin 0)))
      \<and> shell (fresh_session (Shell (Builtin 0))) = Shell (Builtin 0)"
    by (simp add: fresh_session_def)
  from wrapper_calls_original_first
      [where original = "call_routine (Builtin 0)" and w = failing_display_world
        and args = "([], [])" and s = demo_installed and e = ?failed and ?s1.0 = ?first] raises
  have one: "custom_showtraceback (call_routine (Builtin 0)) failing_display_world ([], [])
      demo_installed = Raised ?failed ?first"
    by blast
  from wrapper_calls_original_first
      [where original = "call_routine (Builtin 0)" and w = demo_world and args = "([], [])"
        and s = ?later and ?s1.0 = ?shown] returns flag
  have two: "custom_showtraceback (call_routine (Builtin 0)) demo_world ([], []) ?later
      = Returned ?shown"
    by blast
  from wrapper_calls_original_first
      [where original = "call_routine (Builtin 0)" and w = demo_world and args = "([], [])"
        and s = demo_installed and ?s1.0 = ?first] returns_first quiet
  have three: "\<exists>s'. custom_showtraceback (call_routine (Builtin 0)) demo_world ([], [])
      demo_installed = Returned s'"
    by blast
  from wrapper_calls_original_first
      [where s = "fresh_session (Shell (Builtin 0))" and r = "Builtin 0" and w = demo_world]
    fresh
  have four: "\<exists>s'. setup_auto_error_detection demo_world (fresh_session (Shell (Builtin 0)))
      = Returned s' \<and> shell s' = Shell (Custom (Builtin 0))"
    by blast
  from raises one returns flag two returns_first three fresh four show ?thesis by blast
qed

subsection \<open>The arguments of the notifier process\<close>

lemma resolve_label_given: "resolve_label w (Some given) s = Inr given"
  by (simp add: resolve_label_def)

lemma resolve_label_probed:
  "resolve_label w None s =
     Inr (case get_notebook_name w s of Inr (Some probed) \<Rightarrow> probed | _ \<Rightarrow> [])"
  using get_notebook_name_returns [of w s]
  by (auto simp add: resolve_label_def split: option.splits)

lemma demo_script:
  "get_alert_script_path demo_world = Inr (Some (ascii ''/opt/alerts/_show_alert.py''))"
  by (simp add: get_alert_script_path_def demo_world_def posix_join_def alert_file_def ascii_def)

lemma demo_label: "resolve_label demo_world None demo_installed = Inr (ascii ''nb'')"
  by (simp add: resolve_label_def get_notebook_name_def get_ipython_def demo_installed_def
      except_pass_def vsc_strategy_def parent_strategy_def demo_world_def endswith_def
      posix_stem_def ascii_def Let_def)

text \<open>
  C8. When the script is found and \<^verbatim>\<open>Popen\<close> starts the process, the argument vector
  is the interpreter, the script, and then the status token, the message and the label;
  no process is started with any other vector. The token is \<open>success\<close> for a true
  flag and \<open>error\<close> for a false one; the message is passed as it is; the label is the
  one the caller gave, or else the probed notebook name, or else the empty string.
\<close>

theorem notifier_arguments:
  "(get_alert_script_path w = Inr (Some script) \<and> script \<noteq> []
      \<and> resolve_label w notebook_name s = Inr label
      \<and> popen w [sys_executable w, script, status_token success, message, label] = None \<longrightarrow>
      show_alert w success message notebook_name s =
        Returned (s\<lparr>events := events s @
          [Call_show_alert success message notebook_name,
           Popen [sys_executable w, script, status_token success, message, label]]\<rparr>))
   \<and> (state_of (show_alert w success message notebook_name s) = s'
        \<and> events s' = events s @ new \<and> Popen argv \<in> set new \<longrightarrow>
        (\<exists>script label.
           get_alert_script_path w = Inr (Some script)
           \<and> resolve_label w notebook_name s = Inr label
           \<and> argv = [sys_executable w, script, status_token success, message, label]))
   \<and> status_token True = ascii ''success'' \<and> status_token False = ascii ''error''
   \<and> resolve_label w (Some given) s = Inr given
   \<and> resolve_label w None s =
        Inr (case get_notebook_name w s of Inr (Some probed) \<Rightarrow> probed | _ \<Rightarrow> [])"
proof -
  have launched: "get_alert_script_path w = Inr (Some script) \<and> script \<noteq> []
      \<and> resolve_label w notebook_name s = Inr label
      \<and> popen w [sys_executable w, script, status_token success, message, label] = None \<longrightarrow>
      show_alert w success message notebook_name s =
        Returned (s\<lparr>events := events s @
          [Call_show_alert success message notebook_name,
           Popen [sys_executable w, script, status_token success, message, label]]\<rparr>)"
    using show_alert_launched [of w script notebook_name s label success message] by blast
  have only: "\<exists>script label.
           get_alert_script_path w = Inr (Some script)
           \<and> resolve_label w notebook_name s = Inr label
           \<and> argv = [sys_executable w, script, status_token success, message, label]"
    if result: "state_of (show_alert w success message notebook_name s) = s'"
      and new: "events s' = events s @ new" and started: "Popen argv \<in> set new"
  proof -
    obtain rest where
      shape: "state_of (show_alert w success message notebook_name s) =
        s\<lparr>events := events s @ Call_show_alert success message notebook_name # rest\<rparr>"
      and popens: "\<forall>argv. Popen argv \<in> set rest \<longrightarrow>
          (\<exists>script label. get_alert_script_path w = Inr (Some script)
             \<and> resolve_label w notebook_name s = Inr label
             \<and> argv = [sys_executable w, script, status_token success, message, label])"
      using show_alert_shape [of w success message notebook_name s] by blast
    from result shape new have "new = Call_show_alert success message notebook_name # rest"
      by auto
    with started have "Popen argv \<in> set rest" by simp
    with popens show ?thesis by blast
  qed
  have tokens: "status_token True = ascii ''success'' \<and> status_token False = ascii ''error''"
    by (simp add: status_token_def)
  from launched only tokens resolve_label_given [of w given s] resolve_label_probed [of w s]
  show ?thesis by blast
qed

theorem notifier_arguments_witness:
  "get_alert_script_path demo_world = Inr (Some (ascii ''/opt/alerts/_show_alert.py''))
   \<and> resolve_label demo_world None demo_installed = Inr (ascii ''nb'')
   \<and> popen demo_world [ascii ''/usr/bin/python3'', ascii ''/opt/alerts/_show_alert.py'',
         ascii ''success'', ascii ''All done'', ascii ''nb''] = None
   \<and> show_alert demo_world True (ascii ''All done'') None demo_installed =
       Returned (demo_installed\<lparr>events := events demo_installed @
         [Call_show_alert True (ascii ''All done'') None,
          Popen [ascii ''/usr/bin/python3'', ascii ''/opt/alerts/_show_alert.py'',
                 ascii ''success'', ascii ''All done'', ascii ''nb'']]\<rparr>)
   \<and> (\<exists>script label.
         get_alert_script_path demo_world = Inr (Some script)
         \<and> resolve_label demo_world None demo_installed = Inr label
         \<and> [ascii ''/usr/bin/python3'', ascii ''/opt/alerts/_show_alert.py'',
              ascii ''success'', ascii ''All done'', ascii ''nb'']
            = [sys_executable demo_world, script, status_token True, ascii ''All done'', label])"
proof -
  let ?script = "ascii ''/opt/alerts/_show_alert.py''"
  let ?argv = "[sys_executable demo_world, ?script, status_token True, ascii ''All done'',
    ascii ''nb'']"
  let ?new = "[Call_show_alert True (ascii ''All done'') None, Popen ?argv]"
  let ?s' = "demo_installed\<lparr>events := events demo_installed @ ?new\<rparr>"
  have nonempty: "?script \<noteq> []"
    by simp
  have starts: "popen demo_world ?argv = None"
    by (simp add: demo_world_def)
  have argv: "?argv = [ascii ''/usr/bin/python3'', ?script, ascii ''success'',
      ascii ''All done'', ascii ''nb'']"
    by (simp add: demo_world_def status_token_def)
  from notifier_arguments
      [where w = demo_world and script = ?script and notebook_name = None
        and s = demo_installed and label = "ascii ''nb''" and success = True
        and message = "ascii ''All done''"]
    demo_script nonempty demo_label starts
  have one: "show_alert demo_world True (ascii ''All done'') None demo_installed = Returned ?s'"
    by blast
  then have "state_of (show_alert demo_world True (ascii ''All done'') None demo_installed) = ?s'"
    by simp
  moreover have "events ?s' = events demo_installed @ ?new" "Popen ?argv \<in> set ?new"
    by simp_all
  ultimately have two: "\<exists>script label.
         get_alert_script_path demo_world = Inr (Some script)
         \<and> resolve_label demo_world None demo_installed = Inr label
         \<and> ?argv = [sys_executable demo_world, script, status_token True, ascii ''All done'',
              label]"
    using notifier_arguments
      [where w = demo_world and notebook_name = None and s = demo_installed
        and success = True and message = "ascii ''All done''" and s' = ?s' and new = ?new
        and argv = ?argv]
    by blast
  from demo_script demo_label starts one two show ?thesis
    by (simp only: argv)
qed

subsection \<open>What the dispatcher catches and what it lets through\<close>

lemma get_alert_script_path_None_iff:
  "get_alert_script_path w = Inr None \<longleftrightarrow>
     path_exists w (path_join w (script_dir w) alert_file) = Inr False
     \<and> (\<exists>current. cwd w = Inr current
           \<and> path_exists w (path_join w current alert_file) = Inr False)
     \<and> (\<exists>user_home. home w = Inr user_home
           \<and> path_exists w (path_join w user_home alert_file) = Inr False)"
  by (auto simp add: get_alert_script_path_def split: sum.splits bool.splits)

lemma get_alert_script_path_order:
  "(path_exists w (path_join w (script_dir w) alert_file) = Inr True \<longrightarrow>
      get_alert_script_path w = Inr (Some (path_join w (script_dir w) alert_file)))
   \<and> (path_exists w (path_join w (script_dir w) alert_file) = Inr False
        \<and> cwd w = Inr current
        \<and> path_exists w (path_join w current alert_file) = Inr True \<longrightarrow>
        get_alert_script_path w = Inr (Some (path_join w current alert_file)))
   \<and> (path_exists w (path_join w (script_dir w) alert_file) = Inr False
        \<and> cwd w = Inr current
        \<and> path_exists w (path_join w current alert_file) = Inr False
        \<and> home w = Inr user_home
        \<and> path_exists w (path_join w user_home alert_file) = Inr True \<longrightarrow>
        get_alert_script_path w = Inr (Some (path_join w user_home alert_file)))"
  by (simp add: get_alert_script_path_def)

lemma sublist_status_line: "sublist message (status_line success message)"
  by (simp add: status_line_def sublist_def) (metis append.assoc append_Nil2)

text \<open>
  C3, as stated, fails. When no script is found and the standard output is ASCII, the
  first print of the fallback raises on the warning sign and the exception leaves
  \<^verbatim>\<open>_show_alert\<close>; nothing is printed. When the home directory cannot be resolved,
  \<^verbatim>\<open>Path.home()\<close> raises in the search, outside the \<^verbatim>\<open>try\<close>.
\<close>

theorem show_alert_never_raises_counterexample:
  "show_alert ascii_world True (ascii ''All done'') None demo_installed
     = Raised (PyException (ascii ''ascii codec cannot encode character''))
         (demo_installed\<lparr>events := events demo_installed @
            [Call_show_alert True (ascii ''All done'') None]\<rparr>)
   \<and> show_alert
        (demo_world\<lparr>path_exists := (\<lambda>p. Inr False),
                     home := Inl (PyException (ascii ''Could not determine home directory.''))\<rparr>)
        True (ascii ''All done'') None demo_installed
     = Raised (PyException (ascii ''Could not determine home directory.''))
         (demo_installed\<lparr>events := events demo_installed @
            [Call_show_alert True (ascii ''All done'') None]\<rparr>)"
  by (simp add: show_alert_def get_alert_script_path_def ascii_world_def demo_world_def
      print_line_def ascii_stdout_def not_found_warning_def warning_sign_def emit_def Let_def)

text \<open>
  C3, amended. \<^verbatim>\<open>_show_alert\<close> catches every exception of the process spawn and
  raises none of its own: an exception leaves it only when a lookup of the script
  search raises (\<^verbatim>\<open>exists()\<close>, \<^verbatim>\<open>Path.cwd()\<close>, \<^verbatim>\<open>Path.home()\<close>) or when a print of a
  fallback raises, so it returns whenever no lookup raises and every print succeeds.
  The search takes the first candidate that exists, beside the module, then in the
  working directory, then in the home directory, and finds no script exactly when
  every lookup returns and none of the three exists. When it finds none, and when
  \<^verbatim>\<open>Popen\<close> raises, the call prints the warning and then the status line, and
  returns, provided the two prints succeed. The status line contains the message (it
  is empty for an empty message).
\<close>

theorem show_alert_degrades:
  "(show_alert w success message notebook_name s = Raised e t \<longrightarrow>
      get_alert_script_path w = Inl e \<or> (\<exists>line. stdout_write w line = Some e))
   \<and> ((\<forall>e. get_alert_script_path w \<noteq> Inl e) \<and> (\<forall>line. stdout_write w line = None) \<longrightarrow>
        (\<exists>s'. show_alert w success message notebook_name s = Returned s'))
   \<and> (get_alert_script_path w = Inr None \<longleftrightarrow>
        path_exists w (path_join w (script_dir w) alert_file) = Inr False
        \<and> (\<exists>current. cwd w = Inr current
              \<and> path_exists w (path_join w current alert_file) = Inr False)
        \<and> (\<exists>user_home. home w = Inr user_home
              \<and> path_exists w (path_join w user_home alert_file) = Inr False))
   \<and> (path_exists w (path_join w (script_dir w) alert_file) = Inr True \<longrightarrow>
        get_alert_script_path w = Inr (Some (path_join w (script_dir w) alert_file)))
   \<and> (path_exists w (path_join w (script_dir w) alert_file) = Inr False
        \<and> cwd w = Inr current
        \<and> path_exists w (path_join w current alert_file) = Inr True \<longrightarrow>
        get_alert_script_path w = Inr (Some (path_join w current alert_file)))
   \<and> (path_exists w (path_join w (script_dir w) alert_file) = Inr False
        \<and> cwd w = Inr current
        \<and> path_exists w (path_join w current alert_file) = Inr False
        \<and> home w = Inr user_home
        \<and> path_exists w (path_join w user_home alert_file) = Inr True \<longrightarrow>
        get_alert_script_path w = Inr (Some (path_join w user_home alert_file)))
   \<and> (get_alert_script_path w = Inr None
        \<and> stdout_write w not_found_warning = None
        \<and> stdout_write w (status_line success message) = None \<longrightarrow>
        show_alert w success message notebook_name s =
          Returned (s\<lparr>events := events s @
            [Call_show_alert success message notebook_name,
             Print not_found_warning, Print (status_line success message)]\<rparr>))
   \<and> (get_alert_script_path w = Inr (Some script) \<and> script \<noteq> []
        \<and> resolve_label w notebook_name s = Inr label
        \<and> popen w [sys_executable w, script, status_token success, message, label] = Some e'
        \<and> stdout_write w (launch_warning e') = None
        \<and> stdout_write w (status_line success message) = None \<longrightarrow>
        show_alert w success message notebook_name s =
          Returned (s\<lparr>events := events s @
            [Call_show_alert success message notebook_name,
             Print (launch_warning e'), Print (status_line success message)]\<rparr>))
   \<and> sublist message (status_line success message)"
proof -
  have raised: "show_alert w success message notebook_name s = Raised e t \<longrightarrow>
      get_alert_script_path w = Inl e \<or> (\<exists>line. stdout_write w line = Some e)"
    using show_alert_raised [of w success message notebook_name s e t] by blast
  have returns: "(\<forall>e. get_alert_script_path w \<noteq> Inl e) \<and> (\<forall>line. stdout_write w line = None) \<longrightarrow>
        (\<exists>s'. show_alert w success message notebook_name s = Returned s')"
    using show_alert_returns [of w success message notebook_name s] by blast
  have missing: "get_alert_script_path w = Inr None
        \<and> stdout_write w not_found_warning = None
        \<and> stdout_write w (status_line success message) = None \<longrightarrow>
        show_alert w success message notebook_name s =
          Returned (s\<lparr>events := events s @
            [Call_show_alert success message notebook_name,
             Print not_found_warning, Print (status_line success message)]\<rparr>)"
    using show_alert_not_found [of w success message notebook_name s]
      print_lines_ok [of "[not_found_warning, status_line success message]" w
        "emit (Call_show_alert success message notebook_name) s"]
    by (auto simp add: emit_def)
  have failed: "get_alert_script_path w = Inr (Some script) \<and> script \<noteq> []
        \<and> resolve_label w notebook_name s = Inr label
        \<and> popen w [sys_executable w, script, status_token success, message, label] = Some e'
        \<and> stdout_write w (launch_warning e') = None
        \<and> stdout_write w (status_line success message) = None \<longrightarrow>
        show_alert w success message notebook_name s =
          Returned (s\<lparr>events := events s @
            [Call_show_alert success message notebook_name,
             Print (launch_warning e'), Print (status_line success message)]\<rparr>)"
    using show_alert_launch_failed [of w script notebook_name s label success message e']
      print_lines_ok [of "[launch_warning e', status_line success message]" w
        "emit (Call_show_alert success message notebook_name) s"]
    by (auto simp add: emit_def)
  from raised returns missing failed get_alert_script_path_None_iff [of w]
    get_alert_script_path_order [of w current user_home]
    sublist_status_line [of message success]
  show ?thesis by blast
qed

theorem show_alert_degrades_witness:
  "show_alert ascii_world True (ascii ''All done'') None demo_installed
     = Raised (PyException (ascii ''ascii codec cannot encode character''))
         (emit (Call_show_alert True (ascii ''All done'') None) demo_installed)
   \<and> (get_alert_script_path ascii_world
         = Inl (PyException (ascii ''ascii codec cannot encode character''))
       \<or> (\<exists>line. stdout_write ascii_world line
             = Some (PyException (ascii ''ascii codec cannot encode character''))))
   \<and> (\<exists>s'. show_alert demo_world True (ascii ''All done'') None demo_installed = Returned s')
   \<and> get_alert_script_path
        (demo_world\<lparr>path_exists := \<lambda>p. Inr (p = ascii ''/home/u/_show_alert.py'')\<rparr>)
       = Inr (Some (ascii ''/home/u/_show_alert.py''))
   \<and> get_alert_script_path (demo_world\<lparr>path_exists := \<lambda>p. Inr False\<rparr>) = Inr None
   \<and> show_alert (demo_world\<lparr>path_exists := \<lambda>p. Inr False\<rparr>) True (ascii ''All done'') None
        demo_installed =
       Returned (demo_installed\<lparr>events := events demo_installed @
         [Call_show_alert True (ascii ''All done'') None,
          Print not_found_warning, Print (check_mark @ ascii '' SUCCESS: All done'')]\<rparr>)
   \<and> popen (demo_world\<lparr>popen := \<lambda>argv. Some (PyException (ascii ''denied''))\<rparr>)
        [ascii ''/usr/bin/python3'', ascii ''/opt/alerts/_show_alert.py'', ascii ''error'',
         ascii ''Failed'', ascii ''nb''] = Some (PyException (ascii ''denied''))
   \<and> show_alert (demo_world\<lparr>popen := \<lambda>argv. Some (PyException (ascii ''denied''))\<rparr>) False
        (ascii ''Failed'') None demo_installed =
       Returned (demo_installed\<lparr>events := events demo_installed @
         [Call_show_alert False (ascii ''Failed'') None,
          Print (warning_sign @ ascii '' Warning: Could not launch alert: denied''),
          Print (check_mark @ ascii '' ERROR: Failed'')]\<rparr>)"
proof -
  let ?missing = "demo_world\<lparr>path_exists := \<lambda>p. Inr False\<rparr>"
  let ?broken = "demo_world\<lparr>popen := \<lambda>argv. Some (PyException (ascii ''denied''))\<rparr>"
  let ?script = "ascii ''/opt/alerts/_show_alert.py''"
  let ?codec = "PyException (ascii ''ascii codec cannot encode character'')"
  let ?called = "emit (Call_show_alert True (ascii ''All done'') None) demo_installed"
  have raises: "show_alert ascii_world True (ascii ''All done'') None demo_installed
      = Raised ?codec ?called"
    by (simp add: show_alert_def get_alert_script_path_def ascii_world_def demo_world_def
        print_line_def ascii_stdout_def not_found_warning_def warning_sign_def Let_def)
  have quiet: "(\<forall>e. get_alert_script_path demo_world \<noteq> Inl e)
      \<and> (\<forall>line. stdout_write demo_world line = None)"
    by (simp add: demo_script) (simp add: demo_world_def)
  have none: "get_alert_script_path ?missing = Inr None"
    by (simp add: get_alert_script_path_def demo_world_def)
  have prints: "stdout_write ?missing not_found_warning = None"
    "stdout_write ?missing (status_line True (ascii ''All done'')) = None"
    "stdout_write ?broken (launch_warning (PyException (ascii ''denied''))) = None"
    "stdout_write ?broken (status_line False (ascii ''Failed'')) = None"
    by (simp_all add: demo_world_def)
  have script: "get_alert_script_path ?broken = Inr (Some ?script)" "?script \<noteq> []"
    by (simp_all add: get_alert_script_path_def demo_world_def posix_join_def alert_file_def
        ascii_def)
  have label: "resolve_label ?broken None demo_installed = Inr (ascii ''nb'')"
    by (simp add: resolve_label_def get_notebook_name_def get_ipython_def demo_installed_def
        except_pass_def vsc_strategy_def parent_strategy_def demo_world_def endswith_def
        posix_stem_def ascii_def Let_def)
  have denied: "popen ?broken [sys_executable ?broken, ?script, status_token False,
      ascii ''Failed'', ascii ''nb''] = Some (PyException (ascii ''denied''))"
    by simp
  have argv: "[sys_executable ?broken, ?script, status_token False, ascii ''Failed'', ascii ''nb'']
      = [ascii ''/usr/bin/python3'', ?script, ascii ''error'', ascii ''Failed'', ascii ''nb'']"
    by (simp add: demo_world_def status_token_def)
  have lines: "status_line True (ascii ''All done'') = check_mark @ ascii '' SUCCESS: All done''"
    "status_line False (ascii ''Failed'') = check_mark @ ascii '' ERROR: Failed''"
    "launch_warning (PyException (ascii ''denied''))
       = warning_sign @ ascii '' Warning: Could not launch alert: denied''"
    by (simp_all add: status_line_def launch_warning_def ascii_def)
  from show_alert_degrades
      [where w = ascii_world and success = True and message = "ascii ''All done''"
        and notebook_name = None and s = demo_installed and e = ?codec and t = ?called] raises
  have zero: "get_alert_script_path ascii_world = Inl ?codec
      \<or> (\<exists>line. stdout_write ascii_world line = Some ?codec)"
    by blast
  from show_alert_degrades
      [where w = demo_world and success = True and message = "ascii ''All done''"
        and notebook_name = None and s = demo_installed] quiet
  have one: "\<exists>s'. show_alert demo_world True (ascii ''All done'') None demo_installed = Returned s'"
    by blast
  from show_alert_degrades
      [where w = ?missing and success = True and message = "ascii ''All done''"
        and notebook_name = None and s = demo_installed] none prints(1,2)
  have two: "show_alert ?missing True (ascii ''All done'') None demo_installed =
       Returned (demo_installed\<lparr>events := events demo_installed @
         [Call_show_alert True (ascii ''All done'') None,
          Print not_found_warning, Print (status_line True (ascii ''All done''))]\<rparr>)"
    by blast
  from show_alert_degrades
      [where w = ?broken and success = False and message = "ascii ''Failed''"
        and notebook_name = None and s = demo_installed and script = ?script
        and label = "ascii ''nb''" and e' = "PyException (ascii ''denied'')"]
    script label denied prints(3,4)
  have three: "show_alert ?broken False (ascii ''Failed'') None demo_installed =
       Returned (demo_installed\<lparr>events := events demo_installed @
         [Call_show_alert False (ascii ''Failed'') None,
          Print (launch_warning (PyException (ascii ''denied''))),
          Print (status_line False (ascii ''Failed''))]\<rparr>)"
    by blast
  let ?at_home = "demo_world\<lparr>path_exists := \<lambda>p. Inr (p = ascii ''/home/u/_show_alert.py'')\<rparr>"
  have lookups: "path_exists ?at_home (path_join ?at_home (script_dir ?at_home) alert_file)
      = Inr False"
    "cwd ?at_home = Inr (ascii ''/work'')"
    "path_exists ?at_home (path_join ?at_home (ascii ''/work'') alert_file) = Inr False"
    "home ?at_home = Inr (ascii ''/home/u'')"
    "path_exists ?at_home (path_join ?at_home (ascii ''/home/u'') alert_file) = Inr True"
    "path_join ?at_home (ascii ''/home/u'') alert_file = ascii ''/home/u/_show_alert.py''"
    by (simp_all add: demo_world_def posix_join_def alert_file_def ascii_def)
  from show_alert_degrades
      [where w = ?at_home and current = "ascii ''/work''" and user_home = "ascii ''/home/u''"]
    lookups(1-5)
  have "get_alert_script_path ?at_home
      = Inr (Some (path_join ?at_home (ascii ''/home/u'') alert_file))"
    by blast
  with lookups(6) have ordered: "get_alert_script_path ?at_home
      = Inr (Some (ascii ''/home/u/_show_alert.py''))"
    by (simp only:)
  from denied have denied': "popen ?broken [ascii ''/usr/bin/python3'', ?script, ascii ''error'',
      ascii ''Failed'', ascii ''nb''] = Some (PyException (ascii ''denied''))"
    by (simp only: argv)
  from raises zero one ordered none two denied' three show ?thesis
    by (simp only: lines)
qed

subsection \<open>Manual alerts are unlimited and leave the flags alone\<close>











subsection \<open>The message of the automatic alert\<close>




subsection \<open>The installation is idempotent\<close>

lemma setup_installed:
  "error_handler_installed s \<Longrightarrow> setup_auto_error_detection w s = Returned s"
  by (simp add: setup_auto_error_detection_def)

lemma setup_shell:
  assumes "\<not> error_handler_installed s" and "shell s = Shell r"
  shows "\<exists>new. setup_auto_error_detection w s =
       Returned (s\<lparr>error_handler_installed := True, shell := Shell (Custom r),
              events := events s @ new\<rparr>)
     \<and> (new = [] \<or> new = [Print enabled_line])"
proof (cases "stdout_write w enabled_line")
  case None
  with assms show ?thesis
    by (intro exI [of _ "[Print enabled_line]"])
      (simp add: setup_auto_error_detection_def get_ipython_def print_line_def emit_def)
next
  case (Some e)
  with assms show ?thesis
    by (intro exI [of _ "[]"])
      (simp add: setup_auto_error_detection_def get_ipython_def print_line_def)
qed

lemma setup_no_shell:
  "shell s = No_shell \<or> shell s = Import_fails e \<Longrightarrow> \<not> error_handler_installed s \<Longrightarrow>
     setup_auto_error_detection w s = Returned s"
  by (auto simp add: setup_auto_error_detection_def get_ipython_def)

text \<open>What one installation leaves, in every case.\<close>

lemma setup_effect:
  "\<exists>s1 new. setup_auto_error_detection w s = Returned s1
     \<and> events s1 = events s @ new \<and> dispatcher_calls new = []
     \<and> (\<forall>k a. Show_traceback k a \<notin> set new)
     \<and> error_occurred s1 = error_occurred s
     \<and> (error_handler_installed s \<longrightarrow> s1 = s)
     \<and> (\<not> error_handler_installed s \<longrightarrow>
          (case shell s of
             Shell r \<Rightarrow> error_handler_installed s1 \<and> shell s1 = Shell (Custom r)
           | _ \<Rightarrow> s1 = s))"
proof (cases "error_handler_installed s")
  case True
  then show ?thesis
    by (intro exI [of _ s] exI [of _ "[]"]) (simp add: setup_installed)
next
  case False
  show ?thesis
  proof (cases "shell s")
    case (Import_fails e)
    with False setup_no_shell [of s e w] show ?thesis
      by (intro exI [of _ s] exI [of _ "[]"]) simp
  next
    case No_shell
    with False setup_no_shell [of s _ w] show ?thesis
      by (intro exI [of _ s] exI [of _ "[]"]) simp
  next
    case (Shell r)
    from setup_shell [OF False Shell, of w] obtain new where
      "setup_auto_error_detection w s =
         Returned (s\<lparr>error_handler_installed := True, shell := Shell (Custom r),
              events := events s @ new\<rparr>)"
      and "new = [] \<or> new = [Print enabled_line]"
      by blast
    with False Shell show ?thesis
      by (intro exI [of _ "s\<lparr>error_handler_installed := True, shell := Shell (Custom r),
              events := events s @ new\<rparr>"] exI [of _ new]) auto
  qed
qed

lemma setup_twice:
  "\<exists>s1. setup_auto_error_detection w s = Returned s1
     \<and> setup_auto_error_detection w' s1 = Returned s1"
proof -
  obtain s1 where s1: "setup_auto_error_detection w s = Returned s1"
    and same: "error_handler_installed s \<longrightarrow> s1 = s"
    and fresh: "\<not> error_handler_installed s \<longrightarrow>
          (case shell s of
             Shell r \<Rightarrow> error_handler_installed s1 \<and> shell s1 = Shell (Custom r)
           | _ \<Rightarrow> s1 = s)"
    using setup_effect [of w s] by blast
  have "setup_auto_error_detection w' s1 = Returned s1"
  proof (cases "error_handler_installed s1")
    case True
    then show ?thesis by (rule setup_installed)
  next
    case False
    with same have not_installed: "\<not> error_handler_installed s" by auto
    with fresh False have "s1 = s \<and> (shell s = No_shell \<or> (\<exists>e. shell s = Import_fails e))"
      by (cases "shell s") simp_all
    with not_installed show ?thesis using setup_no_shell [of s _ w'] by auto
  qed
  with s1 show ?thesis by blast
qed

lemma enable_alerts_state:
  assumes "setup_auto_error_detection w s = Returned s1"
  shows "\<exists>n. n \<le> length banner
     \<and> state_of (enable_alerts w s) = s1\<lparr>events := events s1 @ map Print (take n banner)\<rparr>"
  using assms print_lines_state [of banner w s1] by (simp add: enable_alerts_def)

lemma enable_alerts_ok:
  assumes "setup_auto_error_detection w s = Returned s1"
    and "\<forall>line \<in> set banner. stdout_write w line = None"
  shows "enable_alerts w s = Returned (s1\<lparr>events := events s1 @ map Print banner\<rparr>)"
  using assms print_lines_ok [of banner w s1] by (simp add: enable_alerts_def)

lemma enable_alerts_raised:
  assumes "enable_alerts w s = Raised e t"
  shows "\<exists>line \<in> set banner. stdout_write w line = Some e"
proof -
  obtain s1 where "setup_auto_error_detection w s = Returned s1"
    using setup_effect [of w s] by blast
  with assms have "print_lines w banner s1 = Raised e t"
    by (simp add: enable_alerts_def)
  then show ?thesis by (rule print_lines_raised)
qed

text \<open>What one call of \<^verbatim>\<open>enable_alerts\<close> leaves, whether it returns or raises.\<close>

lemma enable_alerts_effect:
  "\<exists>t new. state_of (enable_alerts w s) = t
     \<and> events t = events s @ new \<and> dispatcher_calls new = []
     \<and> error_occurred t = error_occurred s
     \<and> (error_handler_installed s \<longrightarrow> error_handler_installed t \<and> shell t = shell s)
     \<and> (\<not> error_handler_installed s \<longrightarrow>
          (case shell s of
             Shell r \<Rightarrow> error_handler_installed t \<and> shell t = Shell (Custom r)
           | _ \<Rightarrow> \<not> error_handler_installed t \<and> shell t = shell s))"
proof -
  obtain s1 new where s1: "setup_auto_error_detection w s = Returned s1"
    and ev: "events s1 = events s @ new" "dispatcher_calls new = []"
    and flag: "error_occurred s1 = error_occurred s"
    and same: "error_handler_installed s \<longrightarrow> s1 = s"
    and fresh: "\<not> error_handler_installed s \<longrightarrow>
          (case shell s of
             Shell r \<Rightarrow> error_handler_installed s1 \<and> shell s1 = Shell (Custom r)
           | _ \<Rightarrow> s1 = s)"
    using setup_effect [of w s] by blast
  obtain n where
    t: "state_of (enable_alerts w s) = s1\<lparr>events := events s1 @ map Print (take n banner)\<rparr>"
    using enable_alerts_state [OF s1] by blast
  let ?t = "s1\<lparr>events := events s1 @ map Print (take n banner)\<rparr>"
  have "events ?t = events s @ (new @ map Print (take n banner))"
    using ev by simp
  moreover have "dispatcher_calls (new @ map Print (take n banner)) = []"
    using ev by (simp add: dispatcher_calls_append)
  moreover have "error_occurred ?t = error_occurred s"
    using flag by simp
  moreover have "error_handler_installed s \<longrightarrow> error_handler_installed ?t \<and> shell ?t = shell s"
    using same by auto
  moreover have "\<not> error_handler_installed s \<longrightarrow>
          (case shell s of
             Shell r \<Rightarrow> error_handler_installed ?t \<and> shell ?t = Shell (Custom r)
           | _ \<Rightarrow> \<not> error_handler_installed ?t \<and> shell ?t = shell s)"
    using fresh by (cases "shell s") auto
  ultimately show ?thesis using t by blast
qed

lemma enable_alerts_twice:
  "\<exists>s1 s2. state_of (enable_alerts w s) = s1 \<and> state_of (enable_alerts w' s1) = s2
     \<and> shell s2 = shell s1
     \<and> error_handler_installed s2 = error_handler_installed s1
     \<and> error_occurred s2 = error_occurred s
     \<and> (\<not> error_handler_installed s \<and> shell s = Shell r \<longrightarrow>
          error_handler_installed s2 \<and> shell s2 = Shell (Custom r))"
proof -
  obtain s1 where s1: "state_of (enable_alerts w s) = s1"
    and flag1: "error_occurred s1 = error_occurred s"
    and fresh1: "\<not> error_handler_installed s \<longrightarrow>
          (case shell s of
             Shell r \<Rightarrow> error_handler_installed s1 \<and> shell s1 = Shell (Custom r)
           | _ \<Rightarrow> \<not> error_handler_installed s1 \<and> shell s1 = shell s)"
    using enable_alerts_effect [of w s] by blast
  obtain s2 where s2: "state_of (enable_alerts w' s1) = s2"
    and flag2: "error_occurred s2 = error_occurred s1"
    and same2: "error_handler_installed s1 \<longrightarrow> error_handler_installed s2 \<and> shell s2 = shell s1"
    and fresh2: "\<not> error_handler_installed s1 \<longrightarrow>
          (case shell s1 of
             Shell r \<Rightarrow> error_handler_installed s2 \<and> shell s2 = Shell (Custom r)
           | _ \<Rightarrow> \<not> error_handler_installed s2 \<and> shell s2 = shell s1)"
    using enable_alerts_effect [of w' s1] by blast
  have no_shell: "\<forall>q. shell s1 \<noteq> Shell q" if "\<not> error_handler_installed s1"
  proof (cases "error_handler_installed s")
    case True
    with that enable_alerts_effect [of w s] s1 show ?thesis by auto
  next
    case False
    with that fresh1 show ?thesis by (cases "shell s") auto
  qed
  have stable: "shell s2 = shell s1 \<and> error_handler_installed s2 = error_handler_installed s1"
  proof (cases "error_handler_installed s1")
    case True
    with same2 show ?thesis by simp
  next
    case False
    with no_shell fresh2 show ?thesis by (cases "shell s1") auto
  qed
  have wrapped: "\<not> error_handler_installed s \<and> shell s = Shell r \<longrightarrow>
          error_handler_installed s2 \<and> shell s2 = Shell (Custom r)"
    using fresh1 stable by auto
  from s1 s2 stable flag1 flag2 wrapped show ?thesis by simp
qed

text \<open>
  C2. When the installed flag is true the installation returns the session unchanged. In
  every session a second installation changes nothing after the first. Two calls of
  \<^verbatim>\<open>enable_alerts\<close>, whether they return or raise in their prints, leave the routine
  and the flags as one call leaves them; from a session with a shell and no hook they
  leave exactly one wrapper around the routine that was in place, and a failing cell
  then causes at most one dispatcher call. Both calls return when every print
  succeeds. After the module is loaded in a shell and \<^verbatim>\<open>enable_alerts\<close> is called
  twice, the routine of the shell has one wrapper layer.
\<close>

theorem install_idempotent:
  "(error_handler_installed s \<longrightarrow> setup_auto_error_detection w s = Returned s)
   \<and> (\<exists>s1. setup_auto_error_detection w s = Returned s1
         \<and> setup_auto_error_detection w' s1 = Returned s1)
   \<and> (\<exists>s1 s2. state_of (enable_alerts w s) = s1 \<and> state_of (enable_alerts w' s1) = s2
         \<and> shell s2 = shell s1
         \<and> error_handler_installed s2 = error_handler_installed s1
         \<and> error_occurred s2 = error_occurred s
         \<and> (\<not> error_handler_installed s \<and> shell s = Shell r \<longrightarrow>
              error_handler_installed s2 \<and> shell s2 = Shell (Custom r)
              \<and> layers (Custom r) = Suc (layers r)
              \<and> (\<forall>w'' args. \<exists>s3 new. state_of (shell_showtraceback w'' args s2) = s3
                    \<and> events s3 = events s2 @ new
                    \<and> length (dispatcher_calls new) \<le> 1)))
   \<and> ((\<forall>line. stdout_write w line = None) \<and> (\<forall>line. stdout_write w' line = None) \<longrightarrow>
        (\<exists>s1 s2. enable_alerts w s = Returned s1 \<and> enable_alerts w' s1 = Returned s2))
   \<and> (\<exists>s0 s1 s2. import_module w0 (Shell (Builtin k)) = Returned s0
         \<and> state_of (enable_alerts w s0) = s1 \<and> state_of (enable_alerts w' s1) = s2
         \<and> shell s2 = Shell (Custom (Builtin k)) \<and> layers (Custom (Builtin k)) = 1)"
proof -
  have noop: "error_handler_installed s \<longrightarrow> setup_auto_error_detection w s = Returned s"
    by (simp add: setup_installed)
  have twice: "\<exists>s1. setup_auto_error_detection w s = Returned s1
         \<and> setup_auto_error_detection w' s1 = Returned s1"
    by (rule setup_twice)
  have at_most_one: "\<exists>s3 new. state_of (shell_showtraceback w'' args t) = s3
        \<and> events s3 = events t @ new \<and> length (dispatcher_calls new) \<le> 1"
    if "shell t = Shell q" for t q w'' args
    using shell_showtraceback_shape [OF that, of w'' args] by auto
  obtain s1 s2 where en: "state_of (enable_alerts w s) = s1" "state_of (enable_alerts w' s1) = s2"
    "shell s2 = shell s1" "error_handler_installed s2 = error_handler_installed s1"
    "error_occurred s2 = error_occurred s"
    "\<not> error_handler_installed s \<and> shell s = Shell r \<longrightarrow>
          error_handler_installed s2 \<and> shell s2 = Shell (Custom r)"
    using enable_alerts_twice [of w s w' r] by blast
  have enable: "\<exists>s1 s2. state_of (enable_alerts w s) = s1 \<and> state_of (enable_alerts w' s1) = s2
         \<and> shell s2 = shell s1
         \<and> error_handler_installed s2 = error_handler_installed s1
         \<and> error_occurred s2 = error_occurred s
         \<and> (\<not> error_handler_installed s \<and> shell s = Shell r \<longrightarrow>
              error_handler_installed s2 \<and> shell s2 = Shell (Custom r)
              \<and> layers (Custom r) = Suc (layers r)
              \<and> (\<forall>w'' args. \<exists>s3 new. state_of (shell_showtraceback w'' args s2) = s3
                    \<and> events s3 = events s2 @ new
                    \<and> length (dispatcher_calls new) \<le> 1))"
    using en at_most_one [of s2 "Custom r"]
    by (intro exI [of _ s1] exI [of _ s2]) simp
  have returns: "\<exists>s1 s2. enable_alerts w s = Returned s1 \<and> enable_alerts w' s1 = Returned s2"
    if quiet: "(\<forall>line. stdout_write w line = None) \<and> (\<forall>line. stdout_write w' line = None)"
  proof -
    obtain t1 where "setup_auto_error_detection w s = Returned t1"
      using setup_effect [of w s] by blast
    from enable_alerts_ok [OF this] quiet obtain u1 where u1: "enable_alerts w s = Returned u1"
      by blast
    obtain t2 where "setup_auto_error_detection w' u1 = Returned t2"
      using setup_effect [of w' u1] by blast
    from enable_alerts_ok [OF this] quiet obtain u2 where "enable_alerts w' u1 = Returned u2"
      by blast
    with u1 show ?thesis by blast
  qed
  let ?fresh = "fresh_session (Shell (Builtin k))"
  have fresh: "\<not> error_handler_installed ?fresh" "shell ?fresh = Shell (Builtin k)"
    by (simp_all add: fresh_session_def)
  obtain s0 where loaded: "import_module w0 (Shell (Builtin k)) = Returned s0"
    and "error_handler_installed s0" and "shell s0 = Shell (Custom (Builtin k))"
    using setup_effect [of w0 ?fresh] fresh by (auto simp add: import_module_def)
  moreover obtain t1 t2 where "state_of (enable_alerts w s0) = t1"
    "state_of (enable_alerts w' t1) = t2" "shell t2 = shell t1"
    using enable_alerts_twice [of w s0 w'] by blast
  moreover have "error_handler_installed s0 \<longrightarrow> shell (state_of (enable_alerts w s0)) = shell s0"
    using enable_alerts_effect [of w s0] by auto
  ultimately have load: "\<exists>s0 s1 s2. import_module w0 (Shell (Builtin k)) = Returned s0
         \<and> state_of (enable_alerts w s0) = s1 \<and> state_of (enable_alerts w' s1) = s2
         \<and> shell s2 = Shell (Custom (Builtin k)) \<and> layers (Custom (Builtin k)) = 1"
    by (intro exI [of _ s0] exI [of _ t1] exI [of _ t2]) simp
  from noop twice enable returns load show ?thesis by blast
qed

theorem install_idempotent_witness:
  "error_handler_installed demo_installed
   \<and> setup_auto_error_detection ascii_world demo_installed = Returned demo_installed
   \<and> \<not> error_handler_installed (fresh_session (Shell (Builtin 0)))
   \<and> shell (fresh_session (Shell (Builtin 0))) = Shell (Builtin 0)
   \<and> (\<exists>s1 s2. state_of (enable_alerts ascii_world (fresh_session (Shell (Builtin 0)))) = s1
         \<and> state_of (enable_alerts demo_world s1) = s2
         \<and> error_handler_installed s2 \<and> shell s2 = Shell (Custom (Builtin 0))
         \<and> layers (Custom (Builtin 0)) = Suc (layers (Builtin 0)))
   \<and> (\<forall>line. stdout_write demo_world line = None)
   \<and> (\<exists>s1 s2. enable_alerts demo_world (fresh_session (Shell (Builtin 0))) = Returned s1
         \<and> enable_alerts demo_world s1 = Returned s2)"
proof -
  let ?fresh = "fresh_session (Shell (Builtin 0))"
  have installed: "error_handler_installed demo_installed"
    by (simp add: demo_installed_def)
  have fresh: "\<not> error_handler_installed ?fresh \<and> shell ?fresh = Shell (Builtin 0)"
    by (simp add: fresh_session_def)
  have quiet: "\<forall>line. stdout_write demo_world line = None"
    by (simp add: demo_world_def)
  from install_idempotent [where s = demo_installed and w = ascii_world, THEN conjunct1] installed
  have one: "setup_auto_error_detection ascii_world demo_installed = Returned demo_installed"
    by blast
  from install_idempotent [where s = ?fresh and r = "Builtin 0" and w = ascii_world
      and w' = demo_world, THEN conjunct2, THEN conjunct2, THEN conjunct1] fresh
  have two: "\<exists>s1 s2. state_of (enable_alerts ascii_world ?fresh) = s1
         \<and> state_of (enable_alerts demo_world s1) = s2
         \<and> error_handler_installed s2 \<and> shell s2 = Shell (Custom (Builtin 0))
         \<and> layers (Custom (Builtin 0)) = Suc (layers (Builtin 0))"
    by blast
  from install_idempotent [where s = ?fresh and w = demo_world and w' = demo_world,
      THEN conjunct2, THEN conjunct2, THEN conjunct2, THEN conjunct1] quiet
  have three: "\<exists>s1 s2. enable_alerts demo_world ?fresh = Returned s1
         \<and> enable_alerts demo_world s1 = Returned s2"
    by blast
  from installed one fresh two quiet three show ?thesis by blast
qed

subsection \<open>Without a shell there is no hook\<close>

lemma uncaught_without_shell:
  "shell s = No_shell \<or> shell s = Import_fails e \<Longrightarrow> run_session (uncaught_calls xs) s = s"
  by (induction xs) (auto simp add: uncaught_calls_def shell_showtraceback_def)

text \<open>
  C9, as stated, fails. In a plain script whose standard output is ASCII, the first
  print of \<^verbatim>\<open>enable_alerts\<close> raises on the check mark, and nothing catches it.
\<close>

theorem no_shell_no_hook_counterexample:
  "shell (fresh_session No_shell) = No_shell
   \<and> enable_alerts ascii_world (fresh_session No_shell)
     = Raised (PyException (ascii ''ascii codec cannot encode character''))
         (fresh_session No_shell)"
  by (simp add: enable_alerts_def setup_auto_error_detection_def get_ipython_def
      fresh_session_def banner_def print_line_def ascii_world_def ascii_stdout_def
      check_mark_def)

text \<open>
  C9, amended. In a session without a shell (\<^verbatim>\<open>get_ipython()\<close> returns \<^verbatim>\<open>None\<close>, or the
  import of IPython fails) and with no hook installed, the installation returns and
  changes nothing, and \<^verbatim>\<open>enable_alerts\<close>, whether it returns or raises, installs no
  hook: the installed flag stays false, nothing is wrapped, and all it does is print
  lines of its banner. The only exception that leaves it is that of a print of the
  banner, and it returns when the three prints succeed. Every run of failing cells
  after it leaves the session as it is, so it makes no dispatcher call.
\<close>

theorem no_shell_no_hook:
  "(shell s = No_shell \<or> shell s = Import_fails e) \<and> \<not> error_handler_installed s \<longrightarrow>
     setup_auto_error_detection w s = Returned s
     \<and> (\<exists>s' n. state_of (enable_alerts w s) = s' \<and> n \<le> length banner
          \<and> s' = s\<lparr>events := events s @ map Print (take n banner)\<rparr>
          \<and> \<not> error_handler_installed s' \<and> shell s' = shell s
          \<and> error_occurred s' = error_occurred s
          \<and> dispatcher_calls (map Print (take n banner)) = []
          \<and> (\<forall>xs. run_session (uncaught_calls xs) s' = s'))
     \<and> ((\<forall>line \<in> set banner. stdout_write w line = None) \<longrightarrow>
          enable_alerts w s = Returned (s\<lparr>events := events s @ map Print banner\<rparr>))
     \<and> (\<forall>e' t. enable_alerts w s = Raised e' t \<longrightarrow>
          (\<exists>line \<in> set banner. stdout_write w line = Some e'))"
proof
  assume a: "(shell s = No_shell \<or> shell s = Import_fails e) \<and> \<not> error_handler_installed s"
  then have nothing_done: "setup_auto_error_detection w s = Returned s"
    using setup_no_shell [of s e w] by blast
  obtain n where n: "n \<le> length banner"
    and state: "state_of (enable_alerts w s) = s\<lparr>events := events s @ map Print (take n banner)\<rparr>"
    using enable_alerts_state [OF nothing_done] by blast
  let ?s' = "s\<lparr>events := events s @ map Print (take n banner)\<rparr>"
  from a have "shell ?s' = No_shell \<or> shell ?s' = Import_fails e" by simp
  then have later: "\<forall>xs. run_session (uncaught_calls xs) ?s' = ?s'"
    using uncaught_without_shell [of ?s' e] by blast
  have first: "\<exists>s' n. state_of (enable_alerts w s) = s' \<and> n \<le> length banner
          \<and> s' = s\<lparr>events := events s @ map Print (take n banner)\<rparr>
          \<and> \<not> error_handler_installed s' \<and> shell s' = shell s
          \<and> error_occurred s' = error_occurred s
          \<and> dispatcher_calls (map Print (take n banner)) = []
          \<and> (\<forall>xs. run_session (uncaught_calls xs) s' = s')"
    using a n state later by (intro exI [of _ ?s'] exI [of _ n]) simp
  have second: "(\<forall>line \<in> set banner. stdout_write w line = None) \<longrightarrow>
          enable_alerts w s = Returned (s\<lparr>events := events s @ map Print banner\<rparr>)"
    using enable_alerts_ok [OF nothing_done] by blast
  have third: "\<forall>e' t. enable_alerts w s = Raised e' t \<longrightarrow>
          (\<exists>line \<in> set banner. stdout_write w line = Some e')"
    using enable_alerts_raised [of w s] by blast
  from nothing_done first second third
  show "setup_auto_error_detection w s = Returned s
     \<and> (\<exists>s' n. state_of (enable_alerts w s) = s' \<and> n \<le> length banner
          \<and> s' = s\<lparr>events := events s @ map Print (take n banner)\<rparr>
          \<and> \<not> error_handler_installed s' \<and> shell s' = shell s
          \<and> error_occurred s' = error_occurred s
          \<and> dispatcher_calls (map Print (take n banner)) = []
          \<and> (\<forall>xs. run_session (uncaught_calls xs) s' = s'))
     \<and> ((\<forall>line \<in> set banner. stdout_write w line = None) \<longrightarrow>
          enable_alerts w s = Returned (s\<lparr>events := events s @ map Print banner\<rparr>))
     \<and> (\<forall>e' t. enable_alerts w s = Raised e' t \<longrightarrow>
          (\<exists>line \<in> set banner. stdout_write w line = Some e'))"
    by blast
qed

theorem no_shell_no_hook_witness:
  "shell (fresh_session No_shell) = No_shell
   \<and> \<not> error_handler_installed (fresh_session No_shell)
   \<and> setup_auto_error_detection demo_world (fresh_session No_shell)
       = Returned (fresh_session No_shell)
   \<and> enable_alerts demo_world (fresh_session No_shell)
       = Returned ((fresh_session No_shell)\<lparr>events :=
           events (fresh_session No_shell) @ map Print banner\<rparr>)
   \<and> (\<exists>s'. state_of (enable_alerts ascii_world (fresh_session No_shell)) = s'
        \<and> \<not> error_handler_installed s' \<and> shell s' = No_shell
        \<and> run_session (uncaught_calls [(demo_world, ([], [])), (demo_world, ([], []))]) s' = s')
   \<and> enable_alerts ascii_world (fresh_session No_shell)
       = Raised (PyException (ascii ''ascii codec cannot encode character''))
           (fresh_session No_shell)
   \<and> (\<exists>line \<in> set banner. stdout_write ascii_world line
         = Some (PyException (ascii ''ascii codec cannot encode character'')))"
proof -
  let ?plain = "fresh_session No_shell"
  let ?codec = "PyException (ascii ''ascii codec cannot encode character'')"
  have plain: "(shell ?plain = No_shell \<or> shell ?plain = Import_fails e)
      \<and> \<not> error_handler_installed ?plain" for e
    by (simp add: fresh_session_def)
  have sh: "shell ?plain = No_shell"
    by (simp add: fresh_session_def)
  have quiet: "\<forall>line \<in> set banner. stdout_write demo_world line = None"
    by (simp add: demo_world_def)
  have raises: "enable_alerts ascii_world ?plain = Raised ?codec ?plain"
    by (simp add: enable_alerts_def setup_auto_error_detection_def get_ipython_def
        fresh_session_def banner_def print_line_def ascii_world_def ascii_stdout_def
        check_mark_def)
  note good = no_shell_no_hook [where s = ?plain and w = demo_world, rule_format, OF plain]
  note bad = no_shell_no_hook [where s = ?plain and w = ascii_world, rule_format, OF plain]
  from good have one: "setup_auto_error_detection demo_world ?plain = Returned ?plain"
    by blast
  from good quiet have two: "enable_alerts demo_world ?plain
      = Returned (?plain\<lparr>events := events ?plain @ map Print banner\<rparr>)"
    by blast
  from bad obtain s' where "state_of (enable_alerts ascii_world ?plain) = s'"
    "\<not> error_handler_installed s'" "shell s' = shell ?plain"
    "\<forall>xs. run_session (uncaught_calls xs) s' = s'"
    by blast
  with sh have three: "\<exists>s'. state_of (enable_alerts ascii_world ?plain) = s'
        \<and> \<not> error_handler_installed s' \<and> shell s' = No_shell
        \<and> run_session (uncaught_calls [(demo_world, ([], [])), (demo_world, ([], []))]) s' = s'"
    by auto
  from bad raises have four: "\<exists>line \<in> set banner. stdout_write ascii_world line = Some ?codec"
    by blast
  from sh plain one two three raises four show ?thesis by blast
qed

subsection \<open>The order of the label strategies\<close>

lemma first_ipynb_arg_find:
  "first_ipynb_arg w cmdline =
     map_option (path_stem w) (find (\<lambda>arg. endswith arg (ascii ''.ipynb'')) cmdline)"
  by (induction cmdline) simp_all

lemma get_notebook_name_no_shell:
  "shell s = No_shell \<or> shell s = Import_fails e \<Longrightarrow> get_notebook_name w s = Inr None"
  by (auto simp add: get_notebook_name_def get_ipython_def)

lemma get_notebook_name_with_shell:
  "shell s = Shell r \<Longrightarrow>
     get_notebook_name w s =
       Inr (case except_pass (vsc_strategy w) of
              Some name \<Rightarrow> Some name
            | None \<Rightarrow> except_pass (parent_strategy w))"
  by (simp add: get_notebook_name_def get_ipython_def split: option.splits)

lemma spec_vsc_label_eq: "shell s = Shell r \<Longrightarrow> spec_vsc_label w s = except_pass (vsc_strategy w)"
  by (simp add: spec_vsc_label_def except_pass_def vsc_strategy_def split: vsc_probe.splits)

lemma spec_parent_label_eq: "spec_parent_label w = except_pass (parent_strategy w)"
  by (simp add: spec_parent_label_def except_pass_def parent_strategy_def split: parent_probe.splits)

text \<open>
  C5, as stated, fails: without a shell the function returns \<^verbatim>\<open>None\<close> at once and
  never looks at the parent process, whose command line here names a notebook.
\<close>

theorem label_resolution_counterexample:
  "get_notebook_name demo_world (fresh_session No_shell) = Inr None
   \<and> spec_label_resolution demo_world (fresh_session No_shell) = Some (ascii ''nb'')"
  by (simp add: get_notebook_name_def get_ipython_def fresh_session_def
      spec_label_resolution_def spec_vsc_label_def spec_parent_label_def demo_world_def
      endswith_def posix_stem_def ascii_def Let_def)

text \<open>
  C5, amended. \<^verbatim>\<open>_get_notebook_name\<close> never raises. With a shell it gives the result of
  the first strategy that gives a label, the notebook variable of the interpreter
  before the command line of the parent process: the stem of the variable when it is a
  string, whatever the parent process is; else the result of the parent strategy, every
  failure of the first one swallowed; and \<^verbatim>\<open>None\<close> when both fail. The parent
  strategy gives the stem of the first argument of the command line that ends in
  \<open>.ipynb\<close>. Without a shell, or when IPython cannot be imported, it gives
  \<^verbatim>\<open>None\<close> and tries no strategy.
\<close>

theorem label_resolution_order:
  "(\<exists>r. get_notebook_name w s = Inr r)
   \<and> (shell s = Shell r \<longrightarrow> get_notebook_name w s = Inr (spec_label_resolution w s))
   \<and> (shell s = Shell r \<and> vsc_var w = Var_str nb_path \<longrightarrow>
        get_notebook_name w s = Inr (Some (path_stem w nb_path)))
   \<and> (shell s = Shell r \<and> (\<forall>nb_path. vsc_var w \<noteq> Var_str nb_path) \<longrightarrow>
        get_notebook_name w s = Inr (except_pass (parent_strategy w)))
   \<and> (shell s = Shell r \<and> (\<forall>nb_path. vsc_var w \<noteq> Var_str nb_path)
        \<and> (\<forall>cmdline. parent_cmdline w = Parent_cmdline cmdline \<longrightarrow>
              first_ipynb_arg w cmdline = None) \<longrightarrow>
        get_notebook_name w s = Inr None)
   \<and> (shell s = No_shell \<or> shell s = Import_fails e \<longrightarrow> get_notebook_name w s = Inr None)
   \<and> (parent_cmdline w = Parent_cmdline cmdline \<longrightarrow>
        except_pass (parent_strategy w) =
          map_option (path_stem w) (find (\<lambda>arg. endswith arg (ascii ''.ipynb'')) cmdline))
   \<and> (endswith arg suf \<longleftrightarrow> suffix suf arg)"
proof -
  have refines: "shell s = Shell r \<longrightarrow> get_notebook_name w s = Inr (spec_label_resolution w s)"
    by (cases "except_pass (vsc_strategy w)"; cases "except_pass (parent_strategy w)")
      (simp_all add: get_notebook_name_with_shell spec_label_resolution_def spec_vsc_label_eq
        spec_parent_label_eq)
  have first: "shell s = Shell r \<and> vsc_var w = Var_str nb_path \<longrightarrow>
        get_notebook_name w s = Inr (Some (path_stem w nb_path))"
    by (simp add: get_notebook_name_with_shell except_pass_def vsc_strategy_def)
  have second: "shell s = Shell r \<and> (\<forall>nb_path. vsc_var w \<noteq> Var_str nb_path) \<longrightarrow>
        get_notebook_name w s = Inr (except_pass (parent_strategy w))"
    by (cases "vsc_var w")
      (simp_all add: get_notebook_name_with_shell except_pass_def vsc_strategy_def)
  have "except_pass (parent_strategy w) = None"
    if "\<forall>cmdline. parent_cmdline w = Parent_cmdline cmdline \<longrightarrow> first_ipynb_arg w cmdline = None"
    using that by (cases "parent_cmdline w") (simp_all add: except_pass_def parent_strategy_def)
  with second have none: "shell s = Shell r \<and> (\<forall>nb_path. vsc_var w \<noteq> Var_str nb_path)
        \<and> (\<forall>cmdline. parent_cmdline w = Parent_cmdline cmdline \<longrightarrow>
              first_ipynb_arg w cmdline = None) \<longrightarrow>
        get_notebook_name w s = Inr None"
    by simp
  have parent: "parent_cmdline w = Parent_cmdline cmdline \<longrightarrow>
        except_pass (parent_strategy w) =
          map_option (path_stem w) (find (\<lambda>arg. endswith arg (ascii ''.ipynb'')) cmdline)"
    by (simp add: except_pass_def parent_strategy_def first_ipynb_arg_find)
  have ends: "endswith arg suf \<longleftrightarrow> suffix suf arg"
    by (rule endswith_suffix)
  from get_notebook_name_returns [of w s] refines first second none
    get_notebook_name_no_shell [of s e w] parent ends
  show ?thesis by blast
qed

theorem label_resolution_order_witness:
  "shell demo_installed = Shell (Custom (Builtin 0))
   \<and> vsc_var (demo_world\<lparr>vsc_var := Var_str (ascii ''/work/vs.ipynb'')\<rparr>)
       = Var_str (ascii ''/work/vs.ipynb'')
   \<and> get_notebook_name (demo_world\<lparr>vsc_var := Var_str (ascii ''/work/vs.ipynb'')\<rparr>)
        demo_installed = Inr (Some (ascii ''vs''))
   \<and> get_notebook_name (demo_world\<lparr>vsc_var := Var_str (ascii ''/work/vs.ipynb'')\<rparr>)
        demo_installed
       = Inr (spec_label_resolution
               (demo_world\<lparr>vsc_var := Var_str (ascii ''/work/vs.ipynb'')\<rparr>) demo_installed)
   \<and> vsc_var (demo_world\<lparr>vsc_var := Var_not_pathlike (PyException [])\<rparr>)
       = Var_not_pathlike (PyException [])
   \<and> get_notebook_name (demo_world\<lparr>vsc_var := Var_not_pathlike (PyException [])\<rparr>)
        demo_installed = Inr (Some (ascii ''nb''))
   \<and> get_notebook_name
        (demo_world\<lparr>vsc_var := User_ns_raises (PyException []),
                     parent_cmdline := Psutil_raises (PyException [])\<rparr>)
        demo_installed = Inr None
   \<and> shell (fresh_session No_shell) = No_shell
   \<and> get_notebook_name demo_world (fresh_session No_shell) = Inr None"
proof -
  let ?vsc = "demo_world\<lparr>vsc_var := Var_str (ascii ''/work/vs.ipynb'')\<rparr>"
  let ?odd = "demo_world\<lparr>vsc_var := Var_not_pathlike (PyException [])\<rparr>"
  let ?bare = "demo_world\<lparr>vsc_var := User_ns_raises (PyException []),
                     parent_cmdline := Psutil_raises (PyException [])\<rparr>"
  have sh: "shell demo_installed = Shell (Custom (Builtin 0))"
    by (simp add: demo_installed_def)
  have plain: "shell (fresh_session No_shell) = No_shell"
    by (simp add: fresh_session_def)
  have var: "vsc_var ?vsc = Var_str (ascii ''/work/vs.ipynb'')"
    by simp
  have stem: "path_stem ?vsc (ascii ''/work/vs.ipynb'') = ascii ''vs''"
    by (simp add: demo_world_def posix_stem_def ascii_def Let_def)
  have odd: "\<forall>nb_path. vsc_var ?odd \<noteq> Var_str nb_path"
    by simp
  have parent: "except_pass (parent_strategy ?odd) = Some (ascii ''nb'')"
    by (simp add: except_pass_def parent_strategy_def demo_world_def endswith_def
        posix_stem_def ascii_def Let_def)
  have bare: "\<forall>nb_path. vsc_var ?bare \<noteq> Var_str nb_path"
    "\<forall>cmdline. parent_cmdline ?bare = Parent_cmdline cmdline \<longrightarrow>
        first_ipynb_arg ?bare cmdline = None"
    by simp_all
  from label_resolution_order
      [where w = ?vsc and s = demo_installed and r = "Custom (Builtin 0)"
        and nb_path = "ascii ''/work/vs.ipynb''"] sh var
  have "get_notebook_name ?vsc demo_installed
      = Inr (Some (path_stem ?vsc (ascii ''/work/vs.ipynb'')))"
    by blast
  with stem have one: "get_notebook_name ?vsc demo_installed = Inr (Some (ascii ''vs''))"
    by (simp only:)
  from label_resolution_order
      [where w = ?odd and s = demo_installed and r = "Custom (Builtin 0)"] sh odd
  have "get_notebook_name ?odd demo_installed = Inr (except_pass (parent_strategy ?odd))"
    by blast
  with parent have two: "get_notebook_name ?odd demo_installed = Inr (Some (ascii ''nb''))"
    by (simp only:)
  from label_resolution_order
      [where w = ?bare and s = demo_installed and r = "Custom (Builtin 0)"] sh bare
  have three: "get_notebook_name ?bare demo_installed = Inr None"
    by blast
  from label_resolution_order [where w = demo_world and s = "fresh_session No_shell"] plain
  have four: "get_notebook_name demo_world (fresh_session No_shell) = Inr None"
    by blast
  from label_resolution_order
      [where w = ?vsc and s = demo_installed and r = "Custom (Builtin 0)"] sh
  have five: "get_notebook_name ?vsc demo_installed
      = Inr (spec_label_resolution ?vsc demo_installed)"
    by blast
  have odd_var: "vsc_var ?odd = Var_not_pathlike (PyException [])"
    by simp
  from sh var one five odd_var two three plain four show ?thesis by blast
qed

subsection \<open>The notifier does not validate its status token\<close>

text \<open>
  C10. With at least one positional argument (an argument vector of length two or more,
  the script name first) the entry point opens the window with \<open>success\<close> true exactly
  when the token is the string \<open>success\<close>, with the message and the notebook name taken
  from the next two arguments when they are there and empty otherwise; every other
  token gives the error window. With no positional argument it prints the usage line
  and exits with status 1, and no window is opened.
\<close>

theorem notifier_main_token:
  "(2 \<le> length argv \<longrightarrow>
      notifier_main argv =
        Alert_window (argv ! 1 = ascii ''success'')
          (if 2 < length argv then argv ! 2 else [])
          (if 3 < length argv then argv ! 3 else []))
   \<and> (2 \<le> length argv \<and> argv ! 1 \<noteq> ascii ''success'' \<longrightarrow>
        (\<exists>m n. notifier_main argv = Alert_window False m n)
        \<and> title_text (window_style False) = ballot_x @ ascii '' NOTEBOOK ERROR '' @ ballot_x)
   \<and> (length argv < 2 \<longrightarrow> notifier_main argv = Usage_exit usage_line 1)"
  by (simp add: notifier_main_def window_style_def Let_def)

theorem notifier_main_token_witness:
  "notifier_main [ascii ''_show_alert.py'', ascii ''Success'', ascii ''done'']
     = Alert_window False (ascii ''done'') []
   \<and> notifier_main [ascii ''_show_alert.py'', ascii ''success'']
     = Alert_window True [] []
   \<and> notifier_main [ascii ''_show_alert.py''] = Usage_exit usage_line 1"
  using notifier_main_token [of "[ascii ''_show_alert.py'', ascii ''Success'', ascii ''done'']"]
    notifier_main_token [of "[ascii ''_show_alert.py'', ascii ''success'']"]
    notifier_main_token [of "[ascii ''_show_alert.py'']"]
  by simp

end
